theory Spec2Isabelle
  imports Complex_Main
begin

section \<open>Double-precision values\<close>

text \<open>
  The controller computes with C++ \<^verbatim>\<open>double\<close>. A value is a finite number, a negative
  zero, one of the two infinities, or NaN; \<open>Finite 0\<close> is \<^verbatim>\<open>+0.0\<close> and \<open>NegZero\<close> is
  \<^verbatim>\<open>-0.0\<close>. Finite values are carried as reals: rounding, underflow and overflow of
  finite results are not part of the model. The special values follow IEEE 754: NaN is
  absorbing and every comparison with NaN is false; the two zeros compare equal; the
  sign of a product or quotient is the exclusive or of the signs of its operands, also
  when the result is a zero or an infinity; a non-zero value divided by a zero is an
  infinity, and zero divided by zero, infinity divided by infinity, zero times infinity
  and the sum of opposite infinities are NaN; an exact sum of zero is \<^verbatim>\<open>+0.0\<close> unless
  both operands are \<^verbatim>\<open>-0.0\<close>.
\<close>

datatype double = Finite real | NegZero | PInf | NInf | NaN

text \<open>A zero and an infinity of the given sign; \<open>True\<close> is the negative sign.\<close>

definition zero_signed :: "bool \<Rightarrow> double" where
  "zero_signed negative = (if negative then NegZero else Finite 0)"

definition inf_signed :: "bool \<Rightarrow> double" where
  "inf_signed negative = (if negative then NInf else PInf)"

fun dneg :: "double \<Rightarrow> double" where
  "dneg (Finite x) = (if x = 0 then NegZero else Finite (- x))"
| "dneg NegZero = Finite 0"
| "dneg PInf = NInf"
| "dneg NInf = PInf"
| "dneg NaN = NaN"

fun dadd :: "double \<Rightarrow> double \<Rightarrow> double" where
  "dadd NaN _ = NaN"
| "dadd _ NaN = NaN"
| "dadd (Finite x) (Finite y) = Finite (x + y)"
| "dadd (Finite x) NegZero = Finite x"
| "dadd NegZero (Finite y) = Finite y"
| "dadd NegZero NegZero = NegZero"
| "dadd PInf NInf = NaN"
| "dadd NInf PInf = NaN"
| "dadd PInf _ = PInf"
| "dadd NInf _ = NInf"
| "dadd _ PInf = PInf"
| "dadd _ NInf = NInf"

definition dsub :: "double \<Rightarrow> double \<Rightarrow> double" where
  "dsub a b = dadd a (dneg b)"

fun dmul :: "double \<Rightarrow> double \<Rightarrow> double" where
  "dmul NaN _ = NaN"
| "dmul _ NaN = NaN"
| "dmul (Finite x) (Finite y) =
     (if x * y = 0 then zero_signed ((x < 0) \<noteq> (y < 0)) else Finite (x * y))"
| "dmul (Finite x) NegZero = zero_signed (\<not> x < 0)"
| "dmul NegZero (Finite y) = zero_signed (\<not> y < 0)"
| "dmul NegZero NegZero = Finite 0"
| "dmul (Finite x) PInf = (if x = 0 then NaN else inf_signed (x < 0))"
| "dmul (Finite x) NInf = (if x = 0 then NaN else inf_signed (\<not> x < 0))"
| "dmul PInf (Finite y) = (if y = 0 then NaN else inf_signed (y < 0))"
| "dmul NInf (Finite y) = (if y = 0 then NaN else inf_signed (\<not> y < 0))"
| "dmul NegZero PInf = NaN"
| "dmul NegZero NInf = NaN"
| "dmul PInf NegZero = NaN"
| "dmul NInf NegZero = NaN"
| "dmul PInf PInf = PInf"
| "dmul PInf NInf = NInf"
| "dmul NInf PInf = NInf"
| "dmul NInf NInf = PInf"

fun ddiv :: "double \<Rightarrow> double \<Rightarrow> double" where
  "ddiv NaN _ = NaN"
| "ddiv _ NaN = NaN"
| "ddiv (Finite x) (Finite y) =
     (if y = 0 then (if x = 0 then NaN else inf_signed (x < 0))
      else if x = 0 then zero_signed (y < 0)
      else Finite (x / y))"
| "ddiv (Finite x) NegZero = (if x = 0 then NaN else inf_signed (\<not> x < 0))"
| "ddiv NegZero (Finite y) = (if y = 0 then NaN else zero_signed (\<not> y < 0))"
| "ddiv NegZero NegZero = NaN"
| "ddiv (Finite x) PInf = zero_signed (x < 0)"
| "ddiv (Finite x) NInf = zero_signed (\<not> x < 0)"
| "ddiv NegZero PInf = NegZero"
| "ddiv NegZero NInf = Finite 0"
| "ddiv PInf (Finite y) = inf_signed (y < 0)"
| "ddiv NInf (Finite y) = inf_signed (\<not> y < 0)"
| "ddiv PInf NegZero = NInf"
| "ddiv NInf NegZero = PInf"
| "ddiv PInf _ = NaN"
| "ddiv NInf _ = NaN"

text \<open>\<open>dless a b\<close> is the C++ comparison \<^verbatim>\<open>a < b\<close>; \<^verbatim>\<open>a > b\<close> is \<open>dless b a\<close>.\<close>

fun dless :: "double \<Rightarrow> double \<Rightarrow> bool" where
  "dless NaN _ = False"
| "dless _ NaN = False"
| "dless (Finite x) (Finite y) = (x < y)"
| "dless (Finite x) NegZero = (x < 0)"
| "dless NegZero (Finite y) = (0 < y)"
| "dless NegZero NegZero = False"
| "dless PInf _ = False"
| "dless _ NInf = False"
| "dless _ PInf = True"
| "dless NInf _ = True"

text \<open>\<open>dfabs\<close> is \<^verbatim>\<open>std::fabs\<close>.\<close>

fun dfabs :: "double \<Rightarrow> double" where
  "dfabs (Finite x) = Finite \<bar>x\<bar>"
| "dfabs NegZero = Finite 0"
| "dfabs PInf = PInf"
| "dfabs NInf = PInf"
| "dfabs NaN = NaN"

section \<open>Constants and helpers of PidController.cpp\<close>

definition kMinMeasurementDistance :: double where
  "kMinMeasurementDistance = Finite 5.0"

definition kMaxCteSkipPart :: double where
  "kMaxCteSkipPart = Finite 0.025"

definition kOffTrackPenalty :: double where
  "kOffTrackPenalty = Finite 1000000"

definition kMetersInMile :: double where
  "kMetersInMile = Finite 1609.344"

definition kFrameRate :: double where
  "kFrameRate = Finite 25"

definition kSecondsPerFrame :: double where
  "kSecondsPerFrame = ddiv (Finite 1) kFrameRate"

definition kMphToMps :: double where
  "kMphToMps = ddiv kMetersInMile (dmul (Finite 60) (Finite 60))"

definition kSpeedToDistanceCoeff :: double where
  "kSpeedToDistanceCoeff = ddiv kMphToMps kFrameRate"

definition NormalizeControl :: "double \<Rightarrow> double" where
  "NormalizeControl v =
     (if dless (Finite 1) v then Finite 1
      else if dless v (Finite (- 1)) then Finite (- 1)
      else v)"

text \<open>
  The specification writes the same step as \<open>clamp(v, -1, 1)\<close>. This is the clamp in its
  words, for comparison with \<^verbatim>\<open>NormalizeControl\<close>: a value below the lower bound becomes
  the lower bound, a value above the upper bound becomes the upper bound, any other
  value is returned as it is; NaN is neither below nor above and passes through.
\<close>

fun clamp :: "double \<Rightarrow> real \<Rightarrow> real \<Rightarrow> double" where
  "clamp (Finite x) lo hi = Finite (max lo (min hi x))"
| "clamp NegZero lo hi = (if 0 < lo then Finite lo else if hi < 0 then Finite hi else NegZero)"
| "clamp PInf lo hi = Finite hi"
| "clamp NInf lo hi = Finite lo"
| "clamp NaN lo hi = NaN"

section \<open>The PID law\<close>

text \<open>
  Modelled from the spec: the class \<^verbatim>\<open>Pid\<close> (its constructor and \<^verbatim>\<open>GetError\<close>) is used by
  PidController.cpp but is not among the source files. Section 4.1 of the
  specification gives its contract: construction takes the three coefficients and
  zeroes the accumulators; a call adds the error to the running sum, returns
  \<open>-(Kp*cte + Ki*sum + Kd*(cte - previous))\<close> and remembers the error.
\<close>

record Pid =
  Kp :: double
  Ki :: double
  Kd :: double
  integral_cte :: double
  previous_cte :: double

text \<open>Modelled from the spec: the constructor of \<^verbatim>\<open>Pid\<close>, absent from the sources. It takes
  the three coefficients and zeroes the running sum and the previous error.\<close>

definition Pid_new :: "double \<Rightarrow> double \<Rightarrow> double \<Rightarrow> Pid" where
  "Pid_new kp ki kd =
     \<lparr>Kp = kp, Ki = ki, Kd = kd, integral_cte = Finite 0, previous_cte = Finite 0\<rparr>"

text \<open>Modelled from the spec: \<^verbatim>\<open>Pid::GetError\<close>, absent from the sources. The running sum
  includes the current error; the result is the negated weighted sum; the state it
  leaves holds the new sum and the current error as the previous one.\<close>

definition GetError :: "Pid \<Rightarrow> double \<Rightarrow> double \<times> Pid" where
  "GetError c cte =
     (let total = dadd (integral_cte c) cte;
          correction =
            dneg (dadd (dadd (dmul (Kp c) cte) (dmul (Ki c) total))
                       (dmul (Kd c) (dsub cte (previous_cte c))))
      in (correction, c\<lparr>integral_cte := total, previous_cte := cte\<rparr>))"

section \<open>The coordinate-descent tuner\<close>

text \<open>
  Modelled from the spec: the class \<^verbatim>\<open>Twiddler\<close> (its constructor and \<^verbatim>\<open>UpdateError\<close>) is
  used by PidController.cpp but is not among the source files. Section 4.2 of the
  specification gives its contract, followed here step by step: the first
  submission becomes the running best and parameter 0 is probed upward; an improved
  score (strictly smaller than the running best) grows the current delta by 1.1 and
  moves on; a score that is not an improvement first turns the plus probe into a
  minus probe (twice the delta is subtracted) and then, on the minus probe, restores
  the value, shrinks the delta by 0.9 and moves on. Moving on advances the index
  cyclically and probes the next parameter upward.
\<close>

record Parameter =
  p :: double
  dp :: double

record Twiddler =
  parameters :: "Parameter list"
  is_initialized :: bool
  best_error :: double
  current_parameter :: nat
  is_trying_minus :: bool

text \<open>Modelled from the spec: the constructor of \<^verbatim>\<open>Twiddler\<close>, absent from the sources. No
  score has been seen, parameter 0 is the current one and the probe is the plus probe.\<close>

definition Twiddler_new :: "Parameter list \<Rightarrow> Twiddler" where
  "Twiddler_new ps =
     \<lparr>parameters = ps, is_initialized = False, best_error = Finite 0,
      current_parameter = 0, is_trying_minus = False\<rparr>"

definition probe_up :: "Parameter list \<Rightarrow> nat \<Rightarrow> Parameter list" where
  "probe_up ps i = ps[i := (ps ! i)\<lparr>p := dadd (p (ps ! i)) (dp (ps ! i))\<rparr>]"

definition next_parameter :: "nat \<Rightarrow> nat" where
  "next_parameter i = (i + 1) mod 3"

text \<open>Modelled from the spec: \<^verbatim>\<open>Twiddler::UpdateError\<close>, absent from the sources. The four
  branches are the first call, an improved score, a failed plus probe and a failed
  minus probe, in the order of section 4.2; the returned list is the parameter state
  after the call.\<close>

definition UpdateError :: "Twiddler \<Rightarrow> double \<Rightarrow> Parameter list \<times> Twiddler" where
  "UpdateError tw error =
     (let ps = parameters tw; i = current_parameter tw in
      if \<not> is_initialized tw then
        let ps1 = probe_up ps 0
        in (ps1, tw\<lparr>parameters := ps1, is_initialized := True, best_error := error\<rparr>)
      else if dless error (best_error tw) then
        let ps1 = ps[i := (ps ! i)\<lparr>dp := dmul (dp (ps ! i)) (Finite 1.1)\<rparr>];
            j = next_parameter i;
            ps2 = probe_up ps1 j
        in (ps2, tw\<lparr>parameters := ps2, best_error := error,
                      current_parameter := j, is_trying_minus := False\<rparr>)
      else if \<not> is_trying_minus tw then
        let ps1 = ps[i := (ps ! i)\<lparr>p := dsub (p (ps ! i)) (dmul (Finite 2) (dp (ps ! i)))\<rparr>]
        in (ps1, tw\<lparr>parameters := ps1, is_trying_minus := True\<rparr>)
      else
        let ps1 = ps[i := (ps ! i)\<lparr>p := dadd (p (ps ! i)) (dp (ps ! i)),
                                   dp := dmul (dp (ps ! i)) (Finite 0.9)\<rparr>];
            j = next_parameter i;
            ps2 = probe_up ps1 j
        in (ps2, tw\<lparr>parameters := ps2, current_parameter := j, is_trying_minus := False\<rparr>))"

section \<open>The episode controller (PidController.cpp)\<close>

text \<open>
  The members of \<^verbatim>\<open>PidController\<close>, named as in the source without the trailing
  underscore. \<^verbatim>\<open>twiddler_\<close> is a smart pointer that the three-argument constructor
  leaves empty, hence an option.
\<close>

record PidController =
  has_final_coefficients :: bool
  track_length :: double
  off_track_cte :: double
  distance :: double
  time :: double
  max_cte :: double
  pid :: Pid
  twiddler :: "Twiddler option"

text \<open>
  What a call of \<^verbatim>\<open>Update\<close> does to the outside: the callbacks it invokes and the lines
  it writes to the standard output, each in order. A line carries the numbers printed
  in it. (The line a constructor prints is not modelled.)
\<close>

datatype callback = OnControl double double | OnReset

datatype message =
    NewMaxCte double
  | GettingOffTrack double double double
  | MaxCteIs double double double double
  | UsingFinalCoefficients
  | TryingCoefficients double double double

text \<open>
  The two ways a call can abort: \<^verbatim>\<open>UpdateTwiddlerAndReset\<close> dereferences \<^verbatim>\<open>twiddler_\<close>,
  and asserts that three parameters came back.
\<close>

datatype error = NullTwiddler | AssertionFailed

definition PidController8 ::
  "double \<Rightarrow> double \<Rightarrow> double \<Rightarrow> double \<Rightarrow> double \<Rightarrow> double \<Rightarrow> double \<Rightarrow> double
     \<Rightarrow> PidController" where
  "PidController8 kp ki kd dkp dki dkd tlen otc =
     \<lparr>has_final_coefficients = False,
      track_length = tlen,
      off_track_cte = otc,
      distance = Finite 0,
      time = Finite 0,
      max_cte = Finite 0,
      pid = Pid_new kp ki kd,
      twiddler = Some (Twiddler_new
        [\<lparr>p = kp, dp = dkp\<rparr>, \<lparr>p = ki, dp = dki\<rparr>, \<lparr>p = kd, dp = dkd\<rparr>])\<rparr>"

definition PidController3 :: "double \<Rightarrow> double \<Rightarrow> double \<Rightarrow> PidController" where
  "PidController3 kp ki kd =
     \<lparr>has_final_coefficients = True,
      track_length = Finite 0,
      off_track_cte = Finite 0,
      distance = Finite 0,
      time = Finite 0,
      max_cte = Finite 0,
      pid = Pid_new kp ki kd,
      twiddler = None\<rparr>"

definition UpdateTwiddlerAndReset ::
  "PidController \<Rightarrow> double \<Rightarrow> error + PidController \<times> message list" where
  "UpdateTwiddlerAndReset s err =
     (case twiddler s of
        None \<Rightarrow> Inl NullTwiddler
      | Some tw \<Rightarrow>
          (case UpdateError tw err of
             (ps, tw1) \<Rightarrow>
               if length ps \<noteq> 3 then Inl AssertionFailed
               else
                 (let kp = p (ps ! 0); ki = p (ps ! 1); kd = p (ps ! 2)
                  in Inr (s\<lparr>pid := Pid_new kp ki kd,
                            twiddler := Some tw1,
                            distance := Finite 0,
                            time := Finite 0,
                            max_cte := Finite 0\<rparr>,
                          [TryingCoefficients kp ki kd]))))"

text \<open>Lines 74 to 79: the frame is added to the episode, then the maximum is updated.\<close>

definition Accumulate ::
  "PidController \<Rightarrow> double \<Rightarrow> double \<Rightarrow> PidController \<times> message list" where
  "Accumulate s cte speed =
     (let s1 = s\<lparr>distance := dadd (distance s) (dmul kSpeedToDistanceCoeff speed),
                 time := dadd (time s) kSecondsPerFrame\<rparr>
      in if dless (max_cte s1) cte
            \<and> dless (dmul (track_length s1) kMaxCteSkipPart) (distance s1)
         then (s1\<lparr>max_cte := cte\<rparr>, [NewMaxCte (max_cte s1)])
         else (s1, []))"

text \<open>Lines 110 to 115: the control command.\<close>

definition Throttle :: "PidController \<Rightarrow> double \<Rightarrow> double \<Rightarrow> double" where
  "Throttle s cte speed =
     (if dless (Finite 60) speed
      then NormalizeControl
             (dsub (Finite 1.0) (ddiv (dmul (Finite 4.0) (dfabs cte)) (off_track_cte s)))
      else Finite 1.0)"

definition Control ::
  "PidController \<Rightarrow> double \<Rightarrow> double \<Rightarrow> message list
     \<Rightarrow> error + PidController \<times> message list \<times> callback list" where
  "Control s cte speed out =
     (case GetError (pid s) cte of
        (correction, c) \<Rightarrow>
          Inr (s\<lparr>pid := c\<rparr>, out,
               [OnControl (NormalizeControl correction) (Throttle s cte speed)]))"

text \<open>Lines 82 and 83: the condition of the off-track branch.\<close>

definition OffTrack :: "PidController \<Rightarrow> double \<Rightarrow> double \<Rightarrow> bool" where
  "OffTrack s cte speed \<longleftrightarrow>
     dless kMinMeasurementDistance (distance s)
     \<and> (dless (off_track_cte s) (dfabs cte) \<or> dless speed (Finite 1.0))"

definition Update ::
  "PidController \<Rightarrow> double \<Rightarrow> double
     \<Rightarrow> error + PidController \<times> message list \<times> callback list" where
  "Update s cte speed =
     (if \<not> has_final_coefficients s then
        (case Accumulate s cte speed of
           (s1, out1) \<Rightarrow>
             if OffTrack s1 cte speed then
               (let err = ddiv kOffTrackPenalty (distance s1) in
                case UpdateTwiddlerAndReset s1 err of
                  Inl e \<Rightarrow> Inl e
                | Inr (s2, out2) \<Rightarrow>
                    Inr (s2, out1 @ [GettingOffTrack (distance s1) speed err] @ out2,
                         [OnReset]))
             else if dless (track_length s1) (distance s1) then
               (let average_speed = ddiv (distance s1) (dmul (time s1) kMphToMps);
                    out2 = [MaxCteIs (max_cte s1) (distance s1) (time s1) average_speed]
                in if dless (max_cte s1) (ddiv (off_track_cte s1) (Finite 2)) then
                     Control (s1\<lparr>has_final_coefficients := True\<rparr>) cte speed
                       (out1 @ out2 @ [UsingFinalCoefficients])
                   else
                     (case UpdateTwiddlerAndReset s1 (max_cte s1) of
                        Inl e \<Rightarrow> Inl e
                      | Inr (s2, out3) \<Rightarrow> Inr (s2, out1 @ out2 @ out3, [OnReset])))
             else Control s1 cte speed out1)
      else Control s cte speed [])"

text \<open>A sequence of frames, one \<^verbatim>\<open>Update\<close> after the other, as the message handler of
  main.cpp issues them; the outputs are concatenated.\<close>

fun Updates ::
  "PidController \<Rightarrow> (double \<times> double) list
     \<Rightarrow> error + PidController \<times> message list \<times> callback list" where
  "Updates s [] = Inr (s, [], [])"
| "Updates s ((cte, speed) # frames) =
     (case Update s cte speed of
        Inl e \<Rightarrow> Inl e
      | Inr (s1, out1, cb1) \<Rightarrow>
          (case Updates s1 frames of
             Inl e \<Rightarrow> Inl e
           | Inr (s2, out2, cb2) \<Rightarrow> Inr (s2, out1 @ out2, cb1 @ cb2)))"

text \<open>
  What the constructors establish for the tuner: in tuning mode \<^verbatim>\<open>twiddler_\<close> points to a
  tuner that holds three parameters.
\<close>

definition TunerReady :: "PidController \<Rightarrow> bool" where
  "TunerReady s \<longleftrightarrow>
     (case twiddler s of None \<Rightarrow> False | Some tw \<Rightarrow> length (parameters tw) = 3)"

definition Constructed :: "PidController \<Rightarrow> bool" where
  "Constructed s \<longleftrightarrow> has_final_coefficients s \<or> TunerReady s"

section \<open>Construction from the command line (main.cpp)\<close>

definition kKp :: double where
  "kKp = Finite 0.12"

definition kKi :: double where
  "kKi = Finite 0.00001"

definition kKd :: double where
  "kKd = Finite 4.0"

definition kOffTrackCte :: double where
  "kOffTrackCte = Finite 5.0"

definition kMinOffTrackCte :: double where
  "kMinOffTrackCte = Finite 0.1"

definition kMinTrackLength :: double where
  "kMinTrackLength = Finite 50.0"

text \<open>
  The ways \<^verbatim>\<open>CreatePidController\<close> and \<^verbatim>\<open>ProcessBaseParameters\<close> leave without a
  controller: \<^verbatim>\<open>std::exit(EXIT_FAILURE)\<close> after one of the messages, the exception of
  \<^verbatim>\<open>std::stod\<close>, and the failed \<^verbatim>\<open>assert\<close>.
\<close>

datatype exit_message =
    Usage
  | OffTrackCteNegative
  | OffTrackCteTooSmall
  | TrackLengthNegative
  | TrackLengthTooSmall
  | InvalidNumberOfArguments
  | InvalidDataFormat

datatype failure = Exit exit_message | Thrown | Aborted

text \<open>
  main.cpp constructs the controller with either four or eight numbers, the off-track
  CTE in fourth place. A construction is recorded with the arguments of the
  \<^verbatim>\<open>new PidController(...)\<close> expression, in the order written there.
\<close>

datatype construction =
    New4 double double double double
  | New8 double double double double double double double double

text \<open>\<^verbatim>\<open>std::stod\<close> is a parameter: \<open>None\<close> stands for its exception.\<close>

definition stod_then :: "double option \<Rightarrow> (double \<Rightarrow> failure + 'a) \<Rightarrow> failure + 'a" where
  "stod_then r k = (case r of None \<Rightarrow> Inl Thrown | Some v \<Rightarrow> k v)"

definition ProcessBaseParameters ::
  "(string \<Rightarrow> double option) \<Rightarrow> string list
     \<Rightarrow> failure + double \<times> double \<times> double \<times> double" where
  "ProcessBaseParameters stod argv =
     (if \<not> 4 < length argv then Inl Aborted
      else
        stod_then (stod (argv ! 1)) (\<lambda>kp.
        stod_then (stod (argv ! 2)) (\<lambda>ki.
        stod_then (stod (argv ! 3)) (\<lambda>kd.
        stod_then (stod (argv ! 4)) (\<lambda>otc.
          if dless otc (Finite 0) then Inl (Exit OffTrackCteNegative)
          else if dless otc kMinOffTrackCte then Inl (Exit OffTrackCteTooSmall)
          else Inr (kp, ki, kd, otc))))))"

definition CreatePidController ::
  "(string \<Rightarrow> double option) \<Rightarrow> string list \<Rightarrow> failure + construction" where
  "CreatePidController stod argv =
     (let argc = length argv in
      if argc \<noteq> 1 \<and> argc \<noteq> 5 \<and> argc \<noteq> 9 then Inl (Exit Usage)
      else
        (case
           (if argc = 1 then Inr (New4 kKp kKi kKd kOffTrackCte)
            else if argc = 5 then
              (case ProcessBaseParameters stod argv of
                 Inl f \<Rightarrow> Inl f
               | Inr (kp, ki, kd, otc) \<Rightarrow> Inr (New4 kp ki kd otc))
            else if argc = 9 then
              (case ProcessBaseParameters stod argv of
                 Inl f \<Rightarrow> Inl f
               | Inr (kp, ki, kd, otc) \<Rightarrow>
                   stod_then (stod (argv ! 5)) (\<lambda>dkp.
                   stod_then (stod (argv ! 6)) (\<lambda>dki.
                   stod_then (stod (argv ! 7)) (\<lambda>dkd.
                   stod_then (stod (argv ! 8)) (\<lambda>tlen.
                     if dless tlen (Finite 0) then Inl (Exit TrackLengthNegative)
                     else if dless tlen kMinTrackLength then Inl (Exit TrackLengthTooSmall)
                     else Inr (New8 kp ki kd otc dkp dki dkd tlen))))))
            else Inl (Exit InvalidNumberOfArguments))
         of
           Inl Thrown \<Rightarrow> Inl (Exit InvalidDataFormat)
         | r \<Rightarrow> r))"

section \<open>The PID law under a repeated frame\<close>

text \<open>
  What the PID law alone gives when the same CTE is fed to it \<open>n\<close> times: the clamped
  corrections of the successive calls, and the law as the last call leaves it. Neither
  refers to the controller around the law.
\<close>

fun steering_sequence :: "Pid \<Rightarrow> double \<Rightarrow> nat \<Rightarrow> double list" where
  "steering_sequence c cte 0 = []"
| "steering_sequence c cte (Suc n) =
     clamp (fst (GetError c cte)) (- 1) 1 # steering_sequence (snd (GetError c cte)) cte n"

fun pid_after :: "Pid \<Rightarrow> double \<Rightarrow> nat \<Rightarrow> Pid" where
  "pid_after c cte 0 = c"
| "pid_after c cte (Suc n) = pid_after (snd (GetError c cte)) cte n"

section \<open>The controller of the repository's tests\<close>

text \<open>
  TestPidController.cpp tunes with the coefficients 0.1, 1e-4 and 4.0, the deltas 0.01,
  1e-5 and 0.1, a track of 10 meters and an off-track CTE of 5.0. The same controller
  serves as the concrete input of the examples below.
\<close>

definition test_controller :: PidController where
  "test_controller =
     PidController8 (Finite 0.1) (Finite 0.0001) (Finite 4.0)
       (Finite 0.01) (Finite 0.00001) (Finite 0.1) (Finite 10) (Finite 5.0)"

definition test_tuner :: Twiddler where
  "test_tuner = Twiddler_new
     [\<lparr>p = Finite 0.1, dp = Finite 0.01\<rparr>, \<lparr>p = Finite 0.0001, dp = Finite 0.00001\<rparr>,
      \<lparr>p = Finite 4.0, dp = Finite 0.1\<rparr>]"

text \<open>
  The tests drive it for five frames with a CTE of 4.99 at speed 100; the episode then
  stands at 8.9408 meters, 0.2 seconds and a maximum CTE of 4.99.
\<close>

definition after_five_frames :: PidController where
  "after_five_frames =
     test_controller\<lparr>distance := Finite 8.9408, time := Finite 0.2, max_cte := Finite 4.99\<rparr>"

text \<open>The same five frames with a CTE of 2, which stays below half the off-track CTE.\<close>

definition after_five_calm_frames :: PidController where
  "after_five_calm_frames =
     test_controller\<lparr>distance := Finite 8.9408, time := Finite 0.2, max_cte := Finite 2\<rparr>"

text \<open>
  The sixth calm frame completes the track with a small maximum CTE, so the controller
  keeps its coefficients for good. This is the controller after that frame.
\<close>

definition converged_controller :: PidController where
  "converged_controller =
     after_five_calm_frames
       \<lparr>has_final_coefficients := True, distance := Finite 10.72896, time := Finite 0.24,
        pid := \<lparr>Kp = Finite 0.1, Ki = Finite 0.0001, Kd = Finite 4.0,
                integral_cte = Finite 12, previous_cte = Finite 2\<rparr>\<rparr>"


section \<open>Command lines for the examples\<close>

text \<open>
  A stand-in for \<^verbatim>\<open>std::stod\<close> on the few argument strings the examples use, and a
  command line that asks for tuning.
\<close>

definition example_stod :: "string \<Rightarrow> double option" where
  "example_stod = map_of
     [(''0.12'', Finite 0.12), (''0.00001'', Finite 0.00001), (''4.0'', Finite 4.0),
      (''5.0'', Finite 5.0), (''0.05'', Finite 0.05), (''0.01'', Finite 0.01),
      (''0.000001'', Finite 0.000001), (''0.1'', Finite 0.1), (''40'', Finite 40),
      (''1000'', Finite 1000)]"

definition tuning_argv :: "string list" where
  "tuning_argv =
     [''pid'', ''0.12'', ''0.00001'', ''4.0'', ''5.0'', ''0.01'', ''0.000001'', ''0.1'', ''1000'']"

section \<open>Basic facts\<close>

lemmas constants =
  kMinMeasurementDistance_def kMaxCteSkipPart_def kOffTrackPenalty_def kMetersInMile_def
  kFrameRate_def kSecondsPerFrame_def kMphToMps_def kSpeedToDistanceCoeff_def

lemmas evaluation =
  constants test_controller_def PidController8_def PidController3_def Pid_new_def
  Twiddler_new_def Update_def Accumulate_def OffTrack_def Control_def Throttle_def
  GetError_def NormalizeControl_def UpdateTwiddlerAndReset_def UpdateError_def
  probe_up_def next_parameter_def dsub_def inf_signed_def zero_signed_def Let_def

lemmas examples =
  test_controller_def test_tuner_def after_five_frames_def PidController8_def
  PidController3_def Pid_new_def Twiddler_new_def

lemma Control_result:
  "Control s cte speed out =
     Inr (s\<lparr>pid := snd (GetError (pid s) cte)\<rparr>, out,
          [OnControl (NormalizeControl (fst (GetError (pid s) cte))) (Throttle s cte speed)])"
  by (simp add: Control_def split: prod.splits)

lemma Update_fixed:
  "has_final_coefficients s \<Longrightarrow> Update s cte speed = Control s cte speed []"
  by (simp add: Update_def)

lemma Accumulate_unchanged:
  "has_final_coefficients (fst (Accumulate s cte speed)) = has_final_coefficients s"
  "track_length (fst (Accumulate s cte speed)) = track_length s"
  "off_track_cte (fst (Accumulate s cte speed)) = off_track_cte s"
  "pid (fst (Accumulate s cte speed)) = pid s"
  "twiddler (fst (Accumulate s cte speed)) = twiddler s"
  by (simp_all add: Accumulate_def Let_def)

lemma Accumulate_distance:
  "distance (fst (Accumulate s cte speed))
     = dadd (distance s) (dmul kSpeedToDistanceCoeff speed)"
  by (simp add: Accumulate_def Let_def)

lemma Accumulate_time:
  "time (fst (Accumulate s cte speed)) = dadd (time s) kSecondsPerFrame"
  by (simp add: Accumulate_def Let_def)

lemma UpdateError_length:
  "length (fst (UpdateError tw e)) = length (parameters tw)"
  by (simp add: UpdateError_def Let_def probe_up_def)

lemma UpdateError_parameters:
  "parameters (snd (UpdateError tw e)) = fst (UpdateError tw e)"
  by (simp add: UpdateError_def Let_def)

lemma UpdateTwiddlerAndReset_ready:
  assumes "twiddler s = Some tw" and "length (parameters tw) = 3"
  shows "UpdateTwiddlerAndReset s e =
     (let ps = fst (UpdateError tw e) in
      Inr (s\<lparr>pid := Pid_new (p (ps ! 0)) (p (ps ! 1)) (p (ps ! 2)),
             twiddler := Some (snd (UpdateError tw e)),
             distance := Finite 0, time := Finite 0, max_cte := Finite 0\<rparr>,
           [TryingCoefficients (p (ps ! 0)) (p (ps ! 1)) (p (ps ! 2))]))"
proof -
  have "length (fst (UpdateError tw e)) = 3"
    using assms(2) by (simp add: UpdateError_length)
  then show ?thesis
    using assms(1)
    by (cases "UpdateError tw e") (simp add: UpdateTwiddlerAndReset_def Let_def)
qed

lemma TunerReady_reset:
  assumes "TunerReady s"
  shows "\<exists>s1 out. UpdateTwiddlerAndReset s e = Inr (s1, out) \<and> TunerReady s1
           \<and> has_final_coefficients s1 = has_final_coefficients s"
proof -
  from assms obtain tw where tw: "twiddler s = Some tw" "length (parameters tw) = 3"
    by (auto simp: TunerReady_def split: option.splits)
  show ?thesis
    using tw
    by (simp add: UpdateTwiddlerAndReset_ready [OF tw] Let_def TunerReady_def
          UpdateError_parameters UpdateError_length)
qed

lemma Constructed_PidController8:
  "Constructed (PidController8 kp ki kd dkp dki dkd tlen otc)"
  by (simp add: Constructed_def TunerReady_def PidController8_def Twiddler_new_def)

lemma Constructed_PidController3: "Constructed (PidController3 kp ki kd)"
  by (simp add: Constructed_def PidController3_def)

section \<open>One callback per frame\<close>

text \<open>
  Claim C3. Every call of \<^verbatim>\<open>Update\<close> on a controller as the constructors build it (and as
  \<^verbatim>\<open>Update\<close> leaves it) returns normally and invokes exactly one callback: the list of
  invoked callbacks has one element, so it is never both and never none. With final
  coefficients the one callback is the control callback. The controller after the call
  is again as constructed, so the statement carries over to every later frame.
\<close>

theorem Update_exactly_one_callback:
  assumes "Constructed s"
  shows "\<exists>s1 out cb. Update s cte speed = Inr (s1, out, [cb]) \<and> Constructed s1
           \<and> (has_final_coefficients s \<longrightarrow> (\<exists>st th. cb = OnControl st th))"
proof (cases "has_final_coefficients s")
  case True
  then show ?thesis
    by (simp add: Update_fixed Control_result Constructed_def)
next
  case False
  with assms have ready: "TunerReady s" by (simp add: Constructed_def)
  obtain s1 out1 where acc: "Accumulate s cte speed = (s1, out1)"
    by (cases "Accumulate s cte speed")
  have s1: "TunerReady s1" "\<not> has_final_coefficients s1"
    using ready False Accumulate_unchanged [of s cte speed] acc
    by (simp_all add: TunerReady_def)
  show ?thesis
  proof (cases "OffTrack s1 cte speed")
    case True
    obtain s2 out2 where
      "UpdateTwiddlerAndReset s1 (ddiv kOffTrackPenalty (distance s1)) = Inr (s2, out2)"
      and "TunerReady s2"
      using TunerReady_reset [OF s1(1)] by blast
    with True False acc show ?thesis
      by (simp add: Update_def Let_def Constructed_def)
  next
    case no_off: False
    show ?thesis
    proof (cases "dless (track_length s1) (distance s1)")
      case complete: True
      show ?thesis
      proof (cases "dless (max_cte s1) (ddiv (off_track_cte s1) (Finite 2))")
        case True
        with complete no_off False acc show ?thesis
          by (simp add: Update_def Let_def Control_result Constructed_def)
      next
        case large: False
        obtain s2 out2 where
          "UpdateTwiddlerAndReset s1 (max_cte s1) = Inr (s2, out2)" and "TunerReady s2"
          using TunerReady_reset [OF s1(1)] by blast
        with large complete no_off False acc show ?thesis
          by (simp add: Update_def Let_def Constructed_def)
      qed
    next
      case False
      with no_off \<open>\<not> has_final_coefficients s\<close> acc s1 show ?thesis
        by (simp add: Update_def Control_result Constructed_def TunerReady_def)
    qed
  qed
qed

theorem Update_exactly_one_callback_witness:
  "Constructed test_controller
   \<and> (\<exists>s1 out cb. Update test_controller (Finite 4.99) (Finite 100) = Inr (s1, out, [cb])
        \<and> Constructed s1
        \<and> (has_final_coefficients test_controller \<longrightarrow> (\<exists>st th. cb = OnControl st th)))
   \<and> Constructed (PidController3 kKp kKi kKd)
   \<and> has_final_coefficients (PidController3 kKp kKi kKd)
   \<and> (\<exists>s1 out st th.
         Update (PidController3 kKp kKi kKd) (Finite 0.5) (Finite 30)
           = Inr (s1, out, [OnControl st th]))"
proof -
  have tuning: "Constructed test_controller"
    by (simp add: test_controller_def Constructed_PidController8)
  have fixed: "Constructed (PidController3 kKp kKi kKd)"
    by (rule Constructed_PidController3)
  have final: "has_final_coefficients (PidController3 kKp kKi kKd)"
    by (simp add: PidController3_def)
  from Update_exactly_one_callback [OF fixed, of "Finite 0.5" "Finite 30"] final
  have "\<exists>s1 out st th.
         Update (PidController3 kKp kKi kKd) (Finite 0.5) (Finite 30)
           = Inr (s1, out, [OnControl st th])"
    by blast
  with Update_exactly_one_callback [OF tuning, of "Finite 4.99" "Finite 100"]
    tuning fixed final
  show ?thesis by blast
qed

section \<open>The branches of a tuning frame\<close>

lemma Accumulate_reset:
  "(fst (Accumulate s cte speed))\<lparr>pid := c, twiddler := t, distance := a, time := b,
       max_cte := m\<rparr>
     = s\<lparr>pid := c, twiddler := t, distance := a, time := b, max_cte := m\<rparr>"
  by (simp add: Accumulate_def Let_def)

lemma Accumulate_out:
  "snd (Accumulate s cte speed) = [] \<or> snd (Accumulate s cte speed) = [NewMaxCte (max_cte s)]"
  by (simp add: Accumulate_def Let_def)

lemma Accumulate_OffTrack:
  "OffTrack (fst (Accumulate s cte speed)) cte speed \<longleftrightarrow>
     dless (Finite 5) (dadd (distance s) (dmul kSpeedToDistanceCoeff speed))
     \<and> (dless (off_track_cte s) (dfabs cte) \<or> dless speed (Finite 1))"
  by (simp add: OffTrack_def Accumulate_unchanged Accumulate_distance
        kMinMeasurementDistance_def)

lemma Update_tuning_off_track:
  assumes "\<not> has_final_coefficients s"
    and "twiddler s = Some tw" and "length (parameters tw) = 3"
    and "OffTrack (fst (Accumulate s cte speed)) cte speed"
  shows "Update s cte speed =
     (let d = distance (fst (Accumulate s cte speed));
          score = ddiv kOffTrackPenalty d;
          ps = fst (UpdateError tw score)
      in Inr (s\<lparr>pid := Pid_new (p (ps ! 0)) (p (ps ! 1)) (p (ps ! 2)),
                twiddler := Some (snd (UpdateError tw score)),
                distance := Finite 0, time := Finite 0, max_cte := Finite 0\<rparr>,
              snd (Accumulate s cte speed)
                @ [GettingOffTrack d speed score,
                   TryingCoefficients (p (ps ! 0)) (p (ps ! 1)) (p (ps ! 2))],
              [OnReset]))"
proof -
  have tw1: "twiddler (fst (Accumulate s cte speed)) = Some tw"
    using assms(2) by (simp add: Accumulate_unchanged)
  show ?thesis
    using assms(1,4)
    by (simp add: Update_def case_prod_unfold Let_def
          UpdateTwiddlerAndReset_ready [OF tw1 assms(3)] Accumulate_reset)
qed

lemma Update_tuning_retry:
  assumes "\<not> has_final_coefficients s"
    and "twiddler s = Some tw" and "length (parameters tw) = 3"
    and "\<not> OffTrack (fst (Accumulate s cte speed)) cte speed"
    and "dless (track_length s) (distance (fst (Accumulate s cte speed)))"
    and "\<not> dless (max_cte (fst (Accumulate s cte speed))) (ddiv (off_track_cte s) (Finite 2))"
  shows "Update s cte speed =
     (let s1 = fst (Accumulate s cte speed);
          ps = fst (UpdateError tw (max_cte s1))
      in Inr (s\<lparr>pid := Pid_new (p (ps ! 0)) (p (ps ! 1)) (p (ps ! 2)),
                twiddler := Some (snd (UpdateError tw (max_cte s1))),
                distance := Finite 0, time := Finite 0, max_cte := Finite 0\<rparr>,
              snd (Accumulate s cte speed)
                @ [MaxCteIs (max_cte s1) (distance s1) (time s1)
                     (ddiv (distance s1) (dmul (time s1) kMphToMps)),
                   TryingCoefficients (p (ps ! 0)) (p (ps ! 1)) (p (ps ! 2))],
              [OnReset]))"
proof -
  have tw1: "twiddler (fst (Accumulate s cte speed)) = Some tw"
    using assms(2) by (simp add: Accumulate_unchanged)
  show ?thesis
    using assms(1,4,5,6)
    by (simp add: Update_def case_prod_unfold Let_def Accumulate_unchanged
          UpdateTwiddlerAndReset_ready [OF tw1 assms(3)] Accumulate_reset)
qed

lemma Update_tuning_final:
  assumes "\<not> has_final_coefficients s"
    and "\<not> OffTrack (fst (Accumulate s cte speed)) cte speed"
    and "dless (track_length s) (distance (fst (Accumulate s cte speed)))"
    and "dless (max_cte (fst (Accumulate s cte speed))) (ddiv (off_track_cte s) (Finite 2))"
  shows "Update s cte speed =
     (let s1 = fst (Accumulate s cte speed)
      in Control (s1\<lparr>has_final_coefficients := True\<rparr>) cte speed
           (snd (Accumulate s cte speed)
              @ [MaxCteIs (max_cte s1) (distance s1) (time s1)
                   (ddiv (distance s1) (dmul (time s1) kMphToMps)),
                 UsingFinalCoefficients]))"
  using assms
  by (simp add: Update_def case_prod_unfold Let_def Accumulate_unchanged)

lemma Update_tuning_control:
  assumes "\<not> has_final_coefficients s"
    and "\<not> OffTrack (fst (Accumulate s cte speed)) cte speed"
    and "\<not> dless (track_length s) (distance (fst (Accumulate s cte speed)))"
  shows "Update s cte speed =
     Control (fst (Accumulate s cte speed)) cte speed (snd (Accumulate s cte speed))"
  using assms
  by (simp add: Update_def case_prod_unfold Let_def Accumulate_unchanged)


lemma Accumulate_quiet:
  "GettingOffTrack a b c \<notin> set (snd (Accumulate s cte speed))"
  "MaxCteIs a b c e \<notin> set (snd (Accumulate s cte speed))"
  "TryingCoefficients a b c \<notin> set (snd (Accumulate s cte speed))"
  using Accumulate_out [of s cte speed] by auto

lemma Accumulate_max_cte:
  "max_cte (fst (Accumulate s cte speed)) =
     (if dless (max_cte s) cte
         \<and> dless (dmul (track_length s) (Finite 0.025))
              (dadd (distance s) (dmul kSpeedToDistanceCoeff speed))
      then cte else max_cte s)"
  by (simp add: Accumulate_def Let_def kMaxCteSkipPart_def)

lemma Accumulate_state:
  "fst (Accumulate s cte speed) =
     s\<lparr>distance := dadd (distance s) (dmul kSpeedToDistanceCoeff speed),
       time := dadd (time s) kSecondsPerFrame,
       max_cte := max_cte (fst (Accumulate s cte speed))\<rparr>"
  by (simp add: Accumulate_def Let_def)

section \<open>The off-track branch\<close>

text \<open>
  Claim C1. In tuning mode (with the tuner the constructor installs) the off-track
  branch is taken exactly when the distance accumulated including this frame exceeds 5
  and either \<open>|cte|\<close> exceeds the off-track CTE or the speed is below 1.0; the branch is
  recognised by the line it prints. When it is taken, the score 1e6 / distance goes to
  the tuner, whose new state is kept, the PID law is rebuilt from the three returned
  values, distance, time and maximum CTE are zero, the mode is unchanged, and the only
  callback is the reset: no control command. When the condition fails, the line of
  the off-track branch is not printed.
\<close>

theorem Update_off_track:
  assumes "\<not> has_final_coefficients s"
    and "twiddler s = Some tw" and "length (parameters tw) = 3"
  shows
    "let d = dadd (distance s) (dmul kSpeedToDistanceCoeff speed);
         score = ddiv (Finite 1000000) d;
         ps = fst (UpdateError tw score)
     in if dless (Finite 5) d \<and> (dless (off_track_cte s) (dfabs cte) \<or> dless speed (Finite 1))
        then \<exists>out.
               Update s cte speed =
                 Inr (s\<lparr>pid := Pid_new (p (ps ! 0)) (p (ps ! 1)) (p (ps ! 2)),
                        twiddler := Some (snd (UpdateError tw score)),
                        distance := Finite 0, time := Finite 0, max_cte := Finite 0\<rparr>,
                      out, [OnReset])
               \<and> GettingOffTrack d speed score \<in> set out
        else \<forall>s1 out cbs. Update s cte speed = Inr (s1, out, cbs)
               \<longrightarrow> (\<forall>a b c. GettingOffTrack a b c \<notin> set out)"
proof (cases "OffTrack (fst (Accumulate s cte speed)) cte speed")
  case True
  then show ?thesis
    using Update_tuning_off_track [OF assms True]
    by (simp add: Let_def Accumulate_OffTrack Accumulate_distance kOffTrackPenalty_def)
next
  case no_off: False
  have "GettingOffTrack a b c \<notin> set out"
    if "Update s cte speed = Inr (s1, out, cbs)" for s1 out cbs a b c
  proof (cases "dless (track_length s) (distance (fst (Accumulate s cte speed)))")
    case complete: True
    show ?thesis
    proof (cases "dless (max_cte (fst (Accumulate s cte speed)))
                    (ddiv (off_track_cte s) (Finite 2))")
      case True
      from that show ?thesis
        by (simp add: Update_tuning_final [OF assms(1) no_off complete True] Let_def
              Control_result Accumulate_quiet)
           (auto simp: Accumulate_quiet)
    next
      case False
      from that show ?thesis
        by (simp add: Update_tuning_retry [OF assms no_off complete False] Let_def)
           (auto simp: Accumulate_quiet)
    qed
  next
    case False
    from that show ?thesis
      by (simp add: Update_tuning_control [OF assms(1) no_off False] Control_result)
         (auto simp: Accumulate_quiet)
  qed
  then have quiet: "\<forall>s1 out cbs. Update s cte speed = Inr (s1, out, cbs)
               \<longrightarrow> (\<forall>a b c. GettingOffTrack a b c \<notin> set out)"
    by blast
  have "\<not> (dless (Finite 5) (dadd (distance s) (dmul kSpeedToDistanceCoeff speed))
           \<and> (dless (off_track_cte s) (dfabs cte) \<or> dless speed (Finite 1)))"
    using no_off by (simp add: Accumulate_OffTrack)
  then show ?thesis
    unfolding Let_def using quiet by (simp only: if_False simp_thms)
qed


theorem Update_off_track_witness:
  "\<not> has_final_coefficients after_five_frames
   \<and> twiddler after_five_frames = Some test_tuner
   \<and> length (parameters test_tuner) = 3
   \<and> (\<exists>out. Update after_five_frames (Finite 5.01) (Finite 100) =
         Inr (after_five_frames
                \<lparr>pid := Pid_new (Finite 0.11) (Finite 0.0001) (Finite 4),
                 twiddler := Some (snd (UpdateError test_tuner (Finite (1000000 / 10.72896)))),
                 distance := Finite 0, time := Finite 0, max_cte := Finite 0\<rparr>,
              out, [OnReset])
       \<and> GettingOffTrack (Finite 10.72896) (Finite 100) (Finite (1000000 / 10.72896))
            \<in> set out)"
proof -
  have h: "\<not> has_final_coefficients after_five_frames"
    "twiddler after_five_frames = Some test_tuner"
    "length (parameters test_tuner) = 3"
    by (simp_all add: examples)
  have d: "dadd (distance after_five_frames) (dmul kSpeedToDistanceCoeff (Finite 100))
             = Finite 10.72896"
    by (simp add: examples constants)
  have ps: "fst (UpdateError test_tuner e)
     = [\<lparr>p = Finite 0.11, dp = Finite 0.01\<rparr>, \<lparr>p = Finite 0.0001, dp = Finite 0.00001\<rparr>,
        \<lparr>p = Finite 4.0, dp = Finite 0.1\<rparr>]" for e
    by (simp add: examples UpdateError_def probe_up_def Let_def)
  have otc: "off_track_cte after_five_frames = Finite 5"
    by (simp add: examples)
  show ?thesis
    using Update_off_track [OF h, where cte = "Finite 5.01" and speed = "Finite 100"] h
    unfolding d Let_def
    by (simp add: ps otc)
qed

section \<open>The completion branch\<close>

text \<open>
  Claim C2. In tuning mode (with the tuner the constructor installs) the completion
  branch, recognised by the line it prints, is taken exactly when the off-track
  condition fails and the distance accumulated including this frame exceeds the track
  length. If the maximum CTE recorded including this frame is strictly below half the
  off-track CTE, the controller has final coefficients from then on, the tuner is
  untouched and not announced, and the one callback of the frame is a control command.
  Otherwise the maximum CTE goes to the tuner as the score, the PID law is rebuilt from
  the returned values, distance, time and maximum CTE are zero, and the one callback is
  the reset.
\<close>

theorem Update_completion:
  assumes "\<not> has_final_coefficients s"
    and "twiddler s = Some tw" and "length (parameters tw) = 3"
  shows
    "let d = dadd (distance s) (dmul kSpeedToDistanceCoeff speed);
         t = dadd (time s) kSecondsPerFrame;
         m = (if dless (max_cte s) cte \<and> dless (dmul (track_length s) (Finite 0.025)) d
              then cte else max_cte s);
         off = (dless (Finite 5) d
                \<and> (dless (off_track_cte s) (dfabs cte) \<or> dless speed (Finite 1)));
         line = MaxCteIs m d t (ddiv d (dmul t kMphToMps));
         ps = fst (UpdateError tw m)
     in if \<not> off \<and> dless (track_length s) d then
          if dless m (ddiv (off_track_cte s) (Finite 2)) then
            \<exists>c out st th.
              Update s cte speed =
                Inr (s\<lparr>has_final_coefficients := True, distance := d, time := t,
                       max_cte := m, pid := c\<rparr>,
                     out, [OnControl st th])
              \<and> line \<in> set out
              \<and> (\<forall>a b c. TryingCoefficients a b c \<notin> set out)
          else
            \<exists>out.
              Update s cte speed =
                Inr (s\<lparr>pid := Pid_new (p (ps ! 0)) (p (ps ! 1)) (p (ps ! 2)),
                       twiddler := Some (snd (UpdateError tw m)),
                       distance := Finite 0, time := Finite 0, max_cte := Finite 0\<rparr>,
                     out, [OnReset])
              \<and> line \<in> set out
        else \<forall>s1 out cbs. Update s cte speed = Inr (s1, out, cbs)
               \<longrightarrow> (\<forall>a b c e. MaxCteIs a b c e \<notin> set out)"
proof -
  let ?s1 = "fst (Accumulate s cte speed)"
  let ?d = "dadd (distance s) (dmul kSpeedToDistanceCoeff speed)"
  let ?t = "dadd (time s) kSecondsPerFrame"
  let ?m = "if dless (max_cte s) cte \<and> dless (dmul (track_length s) (Finite 0.025)) ?d
            then cte else max_cte s"
  let ?off = "dless (Finite 5) ?d
                \<and> (dless (off_track_cte s) (dfabs cte) \<or> dless speed (Finite 1))"
  have d: "distance ?s1 = ?d" by (simp add: Accumulate_distance)
  have t: "time ?s1 = ?t" by (simp add: Accumulate_time)
  have m: "max_cte ?s1 = ?m" by (simp only: Accumulate_max_cte)
  have st: "?s1\<lparr>has_final_coefficients := True, pid := c\<rparr>
      = s\<lparr>has_final_coefficients := True, distance := ?d, time := ?t, max_cte := ?m,
          pid := c\<rparr>" for c
    by (simp add: Accumulate_def Let_def kMaxCteSkipPart_def)
  have off: "OffTrack ?s1 cte speed \<longleftrightarrow> ?off" by (simp only: Accumulate_OffTrack)
  show ?thesis
  proof (cases "?off")
    case True
    then have ot: "OffTrack ?s1 cte speed" by (simp only: off simp_thms)
    have "\<forall>s1 out cbs. Update s cte speed = Inr (s1, out, cbs)
               \<longrightarrow> (\<forall>a b c e. MaxCteIs a b c e \<notin> set out)"
      by (auto simp add: Update_tuning_off_track [OF assms ot] Let_def Accumulate_quiet)
    with True show ?thesis
      unfolding Let_def by (simp only: simp_thms if_False)
  next
    case no_off: False
    then have not: "\<not> OffTrack ?s1 cte speed" by (simp only: off simp_thms)
    show ?thesis
    proof (cases "dless (track_length s) ?d")
      case False
      then have nc: "\<not> dless (track_length s) (distance ?s1)" by (simp only: d simp_thms)
      have "\<forall>s1 out cbs. Update s cte speed = Inr (s1, out, cbs)
               \<longrightarrow> (\<forall>a b c e. MaxCteIs a b c e \<notin> set out)"
        by (auto simp add: Update_tuning_control [OF assms(1) not nc] Control_result
              Accumulate_quiet)
      with False show ?thesis
        unfolding Let_def by (simp only: simp_thms if_False)
    next
      case complete: True
      then have c: "dless (track_length s) (distance ?s1)" by (simp only: d simp_thms)
      show ?thesis
      proof (cases "dless ?m (ddiv (off_track_cte s) (Finite 2))")
        case True
        then have small: "dless (max_cte ?s1) (ddiv (off_track_cte s) (Finite 2))"
          by (simp only: m simp_thms)
        have "\<exists>c out st th.
              Update s cte speed =
                Inr (s\<lparr>has_final_coefficients := True, distance := ?d, time := ?t,
                       max_cte := ?m, pid := c\<rparr>,
                     out, [OnControl st th])
              \<and> MaxCteIs ?m ?d ?t (ddiv ?d (dmul ?t kMphToMps)) \<in> set out
              \<and> (\<forall>a b c. TryingCoefficients a b c \<notin> set out)"
          unfolding Update_tuning_final [OF assms(1) not c small] Let_def Control_result
            st d t m
          by (auto simp add: Accumulate_quiet)
        with True complete no_off show ?thesis
          unfolding Let_def by (simp only: simp_thms if_True)
      next
        case False
        then have large: "\<not> dless (max_cte ?s1) (ddiv (off_track_cte s) (Finite 2))"
          by (simp only: m simp_thms)
        have "\<exists>out.
              Update s cte speed =
                Inr (s\<lparr>pid := Pid_new (p (fst (UpdateError tw ?m) ! 0))
                              (p (fst (UpdateError tw ?m) ! 1)) (p (fst (UpdateError tw ?m) ! 2)),
                       twiddler := Some (snd (UpdateError tw ?m)),
                       distance := Finite 0, time := Finite 0, max_cte := Finite 0\<rparr>,
                     out, [OnReset])
              \<and> MaxCteIs ?m ?d ?t (ddiv ?d (dmul ?t kMphToMps)) \<in> set out"
          unfolding Update_tuning_retry [OF assms not c large] Let_def d t m
          by simp
        with False complete no_off show ?thesis
          unfolding Let_def by (simp only: simp_thms if_True if_False)
      qed
    qed
  qed
qed


theorem Update_completion_witness:
  "\<not> has_final_coefficients after_five_frames
   \<and> twiddler after_five_frames = Some test_tuner
   \<and> \<not> has_final_coefficients after_five_calm_frames
   \<and> twiddler after_five_calm_frames = Some test_tuner
   \<and> length (parameters test_tuner) = 3
   \<and> (\<exists>out. Update after_five_frames (Finite 4.99) (Finite 100) =
         Inr (after_five_frames
                \<lparr>pid := Pid_new (Finite 0.11) (Finite 0.0001) (Finite 4),
                 twiddler := Some (snd (UpdateError test_tuner (Finite 4.99))),
                 distance := Finite 0, time := Finite 0, max_cte := Finite 0\<rparr>,
              out, [OnReset])
       \<and> MaxCteIs (Finite 4.99) (Finite 10.72896) (Finite 0.24) (Finite 100) \<in> set out)
   \<and> (\<exists>c out st th. Update after_five_calm_frames (Finite 2) (Finite 100) =
         Inr (after_five_calm_frames
                \<lparr>has_final_coefficients := True, distance := Finite 10.72896,
                 time := Finite 0.24, max_cte := Finite 2, pid := c\<rparr>,
              out, [OnControl st th])
       \<and> MaxCteIs (Finite 2) (Finite 10.72896) (Finite 0.24) (Finite 100) \<in> set out
       \<and> (\<forall>a b c. TryingCoefficients a b c \<notin> set out))"
proof -
  have h: "\<not> has_final_coefficients after_five_frames"
    "twiddler after_five_frames = Some test_tuner"
    "length (parameters test_tuner) = 3"
    by (simp_all add: examples)
  have k: "\<not> has_final_coefficients after_five_calm_frames"
    "twiddler after_five_calm_frames = Some test_tuner"
    by (simp_all add: examples after_five_calm_frames_def)
  have d: "dadd (distance after_five_frames) (dmul kSpeedToDistanceCoeff (Finite 100))
             = Finite 10.72896"
    "dadd (distance after_five_calm_frames) (dmul kSpeedToDistanceCoeff (Finite 100))
             = Finite 10.72896"
    by (simp_all add: examples after_five_calm_frames_def constants)
  have t: "dadd (time after_five_frames) kSecondsPerFrame = Finite 0.24"
    "dadd (time after_five_calm_frames) kSecondsPerFrame = Finite 0.24"
    by (simp_all add: examples after_five_calm_frames_def constants)
  have ps: "fst (UpdateError test_tuner e)
     = [\<lparr>p = Finite 0.11, dp = Finite 0.01\<rparr>, \<lparr>p = Finite 0.0001, dp = Finite 0.00001\<rparr>,
        \<lparr>p = Finite 4.0, dp = Finite 0.1\<rparr>]" for e
    by (simp add: examples UpdateError_def probe_up_def Let_def)
  have fields: "off_track_cte after_five_frames = Finite 5"
    "track_length after_five_frames = Finite 10"
    "max_cte after_five_frames = Finite 4.99"
    "off_track_cte after_five_calm_frames = Finite 5"
    "track_length after_five_calm_frames = Finite 10"
    "max_cte after_five_calm_frames = Finite 2"
    by (simp_all add: examples after_five_calm_frames_def)
  have retry: "\<exists>out. Update after_five_frames (Finite 4.99) (Finite 100) =
         Inr (after_five_frames
                \<lparr>pid := Pid_new (Finite 0.11) (Finite 0.0001) (Finite 4),
                 twiddler := Some (snd (UpdateError test_tuner (Finite 4.99))),
                 distance := Finite 0, time := Finite 0, max_cte := Finite 0\<rparr>,
              out, [OnReset])
       \<and> MaxCteIs (Finite 4.99) (Finite 10.72896) (Finite 0.24) (Finite 100) \<in> set out"
    using Update_completion [OF h, where cte = "Finite 4.99" and speed = "Finite 100"]
    unfolding d t Let_def
    by (simp add: ps fields kMphToMps_def kMetersInMile_def)
  have final: "\<exists>c out st th. Update after_five_calm_frames (Finite 2) (Finite 100) =
         Inr (after_five_calm_frames
                \<lparr>has_final_coefficients := True, distance := Finite 10.72896,
                 time := Finite 0.24, max_cte := Finite 2, pid := c\<rparr>,
              out, [OnControl st th])
       \<and> MaxCteIs (Finite 2) (Finite 10.72896) (Finite 0.24) (Finite 100) \<in> set out
       \<and> (\<forall>a b c. TryingCoefficients a b c \<notin> set out)"
    using Update_completion [OF k h(3), where cte = "Finite 2" and speed = "Finite 100"]
    unfolding d t Let_def
    by (simp add: ps fields kMphToMps_def kMetersInMile_def)
  from h k retry final show ?thesis by blast
qed

section \<open>Final coefficients\<close>

lemma Throttle_pid [simp]: "Throttle (s\<lparr>pid := c\<rparr>) cte speed = Throttle s cte speed"
  by (simp add: Throttle_def)

lemma Updates_fixed:
  assumes "has_final_coefficients s"
  shows "\<exists>c sts. Updates s frames =
           Inr (s\<lparr>pid := c\<rparr>, [],
                map (\<lambda>(st, cte, speed). OnControl st (Throttle s cte speed)) (zip sts frames))
         \<and> length sts = length frames"
  using assms
proof (induction frames arbitrary: s)
  case Nil
  have "s = s\<lparr>pid := pid s\<rparr>" by simp
  then show ?case by (metis Updates.simps(1) length_0_conv list.simps(8) zip_Nil)
next
  case (Cons frame frames)
  obtain cte speed where frame: "frame = (cte, speed)" by (cases frame)
  let ?s1 = "s\<lparr>pid := snd (GetError (pid s) cte)\<rparr>"
  let ?st = "NormalizeControl (fst (GetError (pid s) cte))"
  have step: "Update s cte speed = Inr (?s1, [], [OnControl ?st (Throttle s cte speed)])"
    using Cons.prems by (simp add: Update_fixed Control_result)
  have "has_final_coefficients ?s1" using Cons.prems by simp
  from Cons.IH [OF this] obtain c sts where
    rest: "Updates ?s1 frames =
           Inr (?s1\<lparr>pid := c\<rparr>, [],
                map (\<lambda>(st, cte, speed). OnControl st (Throttle ?s1 cte speed)) (zip sts frames))"
    and len: "length sts = length frames"
    by blast
  have "Updates s (frame # frames) =
          Inr (s\<lparr>pid := c\<rparr>, [],
               map (\<lambda>(st, cte, speed). OnControl st (Throttle s cte speed))
                 (zip (?st # sts) (frame # frames)))"
    by (simp add: frame step rest)
  moreover have "length (?st # sts) = length (frame # frames)"
    using len by simp
  ultimately show ?case by blast
qed

text \<open>
  Claim C4. Once the controller has final coefficients, no sequence of later frames
  takes it back to tuning: after any number of \<^verbatim>\<open>Update\<close> calls the flag is still set,
  distance, time and maximum CTE are what they were (no episode bookkeeping), the tuner
  is untouched and nothing is printed (no submission), and every callback is a control
  command, one per frame, never the reset.
\<close>

theorem Fixed_is_permanent:
  assumes "has_final_coefficients s"
  shows "\<exists>s1 cbs. Updates s frames = Inr (s1, [], cbs)
           \<and> has_final_coefficients s1
           \<and> distance s1 = distance s \<and> time s1 = time s \<and> max_cte s1 = max_cte s
           \<and> twiddler s1 = twiddler s
           \<and> length cbs = length frames \<and> OnReset \<notin> set cbs"
proof -
  from Updates_fixed [OF assms, of frames] obtain c sts where
    run: "Updates s frames =
           Inr (s\<lparr>pid := c\<rparr>, [],
                map (\<lambda>(st, cte, speed). OnControl st (Throttle s cte speed)) (zip sts frames))"
    and len: "length sts = length frames"
    by blast
  have "OnReset \<notin> set (map (\<lambda>(st, cte, speed). OnControl st (Throttle s cte speed))
                         (zip sts frames))"
    by auto
  with run len assms show ?thesis by simp
qed

theorem Fixed_is_permanent_witness:
  "has_final_coefficients converged_controller
   \<and> (\<exists>s1 cbs.
         Updates converged_controller [(Finite 6, Finite 0.5), (Finite 6, Finite 0.5)]
           = Inr (s1, [], cbs)
         \<and> has_final_coefficients s1
         \<and> distance s1 = Finite 10.72896 \<and> time s1 = Finite 0.24 \<and> max_cte s1 = Finite 2
         \<and> twiddler s1 = Some test_tuner
         \<and> length cbs = 2 \<and> OnReset \<notin> set cbs)"
proof -
  have h: "has_final_coefficients converged_controller"
    by (simp add: converged_controller_def)
  have fields: "distance converged_controller = Finite 10.72896"
    "time converged_controller = Finite 0.24"
    "max_cte converged_controller = Finite 2"
    "twiddler converged_controller = Some test_tuner"
    by (simp_all add: converged_controller_def after_five_calm_frames_def examples)
  have len: "length [(Finite 6, Finite 0.5), (Finite 6, Finite 0.5)] = 2"
    by simp
  show ?thesis
    using Fixed_is_permanent [OF h, of "[(Finite 6, Finite 0.5), (Finite 6, Finite 0.5)]"] h
    unfolding fields len by blast
qed

section \<open>The control command\<close>

lemma NormalizeControl_is_clamp: "NormalizeControl v = clamp v (- 1) 1"
  by (cases v) (auto simp add: NormalizeControl_def)

lemma clamp_range:
  "(\<exists>x. clamp v (- 1) 1 = Finite x \<and> - 1 \<le> x \<and> x \<le> 1)
   \<or> clamp v (- 1) 1 = NegZero \<or> clamp v (- 1) 1 = NaN"
  by (cases v) auto

text \<open>
  Claim C6. Whenever \<^verbatim>\<open>Update\<close> invokes the control callback, in tuning mode or with
  final coefficients, the steering is the correction of the PID law (as it stood before
  the call) clamped to the range from -1 to 1; the throttle is
  \<open>1 - 4 * |cte| / off_track_cte\<close> clamped to the same range when the speed exceeds 60,
  and 1.0 when it does not (which includes every speed up to 60). Both values are
  therefore numbers between -1 and 1, unless the clamped quantity is NaN, which the
  clamp passes through.
\<close>

theorem Update_control_values:
  assumes "Update s cte speed = Inr (s1, out, cbs)" and "OnControl st th \<in> set cbs"
  shows "st = clamp (fst (GetError (pid s) cte)) (- 1) 1
         \<and> (dless (Finite 60) speed \<longrightarrow>
              th = clamp (dsub (Finite 1)
                            (ddiv (dmul (Finite 4) (dfabs cte)) (off_track_cte s)))
                     (- 1) 1)
         \<and> (\<not> dless (Finite 60) speed \<longrightarrow> th = Finite 1)
         \<and> ((\<exists>x. st = Finite x \<and> - 1 \<le> x \<and> x \<le> 1) \<or> st = NegZero \<or> st = NaN)
         \<and> ((\<exists>y. th = Finite y \<and> - 1 \<le> y \<and> y \<le> 1) \<or> th = NegZero \<or> th = NaN)"
proof -
  have both: "st = NormalizeControl (fst (GetError (pid s) cte)) \<and> th = Throttle s cte speed"
  proof (cases "has_final_coefficients s")
    case True
    with assms show ?thesis
      by (auto simp add: Update_fixed Control_result)
  next
    case False
    from assms False show ?thesis
      by (auto simp add: Update_def case_prod_unfold Let_def Control_result
            Accumulate_unchanged Throttle_def
          split: if_splits sum.splits)
  qed
  then have st: "st = clamp (fst (GetError (pid s) cte)) (- 1) 1"
    by (simp add: NormalizeControl_is_clamp)
  from both have fast: "dless (Finite 60) speed \<Longrightarrow>
      th = clamp (dsub (Finite 1) (ddiv (dmul (Finite 4) (dfabs cte)) (off_track_cte s)))
             (- 1) 1"
    by (simp add: Throttle_def NormalizeControl_is_clamp)
  from both have slow: "\<not> dless (Finite 60) speed \<Longrightarrow> th = Finite 1"
    by (simp add: Throttle_def)
  have st_range: "(\<exists>x. st = Finite x \<and> - 1 \<le> x \<and> x \<le> 1) \<or> st = NegZero \<or> st = NaN"
    unfolding st by (rule clamp_range)
  have th_range: "(\<exists>y. th = Finite y \<and> - 1 \<le> y \<and> y \<le> 1) \<or> th = NegZero \<or> th = NaN"
  proof (cases "dless (Finite 60) speed")
    case True
    show ?thesis unfolding fast [OF True] by (rule clamp_range)
  next
    case False
    show ?thesis unfolding slow [OF False] by simp
  qed
  from st fast slow st_range th_range show ?thesis by blast
qed


theorem Update_control_values_witness:
  "Update test_controller (Finite 4.99) (Finite 100)
     = Inr (test_controller
              \<lparr>distance := Finite 1.788160, time := Finite 0.04, max_cte := Finite 4.99,
               pid := snd (GetError (pid test_controller) (Finite 4.99))\<rparr>,
            [NewMaxCte (Finite 0)], [OnControl (Finite (- 1)) (Finite (- 1))])
   \<and> dless (Finite 60) (Finite 100)
   \<and> Finite (- 1) = clamp (Finite (- 20.459499)) (- 1) 1
   \<and> Finite (- 1) = clamp (Finite (- 2.992)) (- 1) 1
   \<and> Update converged_controller (Finite 0.5) (Finite 61)
     = Inr (converged_controller
              \<lparr>pid := snd (GetError (pid converged_controller) (Finite 0.5))\<rparr>,
            [], [OnControl (Finite 1) (Finite 0.6)])
   \<and> dless (Finite 60) (Finite 61)
   \<and> Finite 1 = clamp (Finite 5.94875) (- 1) 1
   \<and> Finite 0.6 = clamp (Finite 0.6) (- 1) 1
   \<and> Update (PidController3 kKp kKi kKd) (Finite 0.1) (Finite 30)
     = Inr ((PidController3 kKp kKi kKd)
              \<lparr>pid := snd (GetError (pid (PidController3 kKp kKi kKd)) (Finite 0.1))\<rparr>,
            [], [OnControl (Finite (- 0.412001)) (Finite 1)])
   \<and> \<not> dless (Finite 60) (Finite 30)
   \<and> Finite (- 0.412001) = clamp (Finite (- 0.412001)) (- 1) 1"
proof -
  have tuning: "Update test_controller (Finite 4.99) (Finite 100)
     = Inr (test_controller
              \<lparr>distance := Finite 1.788160, time := Finite 0.04, max_cte := Finite 4.99,
               pid := snd (GetError (pid test_controller) (Finite 4.99))\<rparr>,
            [NewMaxCte (Finite 0)], [OnControl (Finite (- 1)) (Finite (- 1))])"
    by (simp add: evaluation)
  have fixed: "Update converged_controller (Finite 0.5) (Finite 61)
     = Inr (converged_controller
              \<lparr>pid := snd (GetError (pid converged_controller) (Finite 0.5))\<rparr>,
            [], [OnControl (Finite 1) (Finite 0.6)])"
    by (simp add: evaluation converged_controller_def after_five_calm_frames_def)
  have slow: "Update (PidController3 kKp kKi kKd) (Finite 0.1) (Finite 30)
     = Inr ((PidController3 kKp kKi kKd)
              \<lparr>pid := snd (GetError (pid (PidController3 kKp kKi kKd)) (Finite 0.1))\<rparr>,
            [], [OnControl (Finite (- 0.412001)) (Finite 1)])"
    by (simp add: evaluation kKp_def kKi_def kKd_def)
  have speeds: "dless (Finite 60) (Finite 100)" "dless (Finite 60) (Finite 61)"
    "\<not> dless (Finite 60) (Finite 30)"
    by simp_all
  have corrections:
    "fst (GetError (pid test_controller) (Finite 4.99)) = Finite (- 20.459499)"
    "fst (GetError (pid converged_controller) (Finite 0.5)) = Finite 5.94875"
    "fst (GetError (pid (PidController3 kKp kKi kKd)) (Finite 0.1)) = Finite (- 0.412001)"
    by (simp_all add: evaluation converged_controller_def after_five_calm_frames_def
          kKp_def kKi_def kKd_def)
  have throttles:
    "dsub (Finite 1) (ddiv (dmul (Finite 4) (dfabs (Finite 4.99)))
        (off_track_cte test_controller)) = Finite (- 2.992)"
    "dsub (Finite 1) (ddiv (dmul (Finite 4) (dfabs (Finite 0.5)))
        (off_track_cte converged_controller)) = Finite 0.6"
    by (simp_all add: evaluation converged_controller_def after_five_calm_frames_def)
  have mem: "OnControl a b \<in> set [OnControl a b]" for a b by simp
  from Update_control_values [OF tuning mem] speeds(1)
  have one: "Finite (- 1) = clamp (Finite (- 20.459499)) (- 1) 1"
    "Finite (- 1) = clamp (Finite (- 2.992)) (- 1) 1"
    unfolding corrections throttles by blast+
  from Update_control_values [OF fixed mem] speeds(2)
  have two: "Finite 1 = clamp (Finite 5.94875) (- 1) 1"
    "Finite 0.6 = clamp (Finite 0.6) (- 1) 1"
    unfolding corrections throttles by blast+
  from Update_control_values [OF slow mem]
  have three: "Finite (- 0.412001) = clamp (Finite (- 0.412001)) (- 1) 1"
    unfolding corrections by blast
  from tuning fixed slow speeds one two three show ?thesis by blast
qed

section \<open>Repeated frames with final coefficients\<close>

text \<open>
  The statement of claim C8 as written, that repeated identical frames give the same
  steering and throttle, fails: the controller built from the default coefficients of
  main.cpp answers the frame (0.1, 30) with the steering -0.412001 and, repeated, with
  -0.012002, since the PID law has added the error to its sum and remembers it as the
  previous error.
\<close>

theorem repeated_frames_steering_differs:
  "Updates (PidController3 kKp kKi kKd) [(Finite 0.1, Finite 30), (Finite 0.1, Finite 30)]
     = Inr ((PidController3 kKp kKi kKd)
              \<lparr>pid := (Pid_new kKp kKi kKd)
                         \<lparr>integral_cte := Finite 0.2, previous_cte := Finite 0.1\<rparr>\<rparr>,
            [],
            [OnControl (Finite (- 0.412001)) (Finite 1),
             OnControl (Finite (- 0.012002)) (Finite 1)])"
  by (simp add: evaluation kKp_def kKi_def kKd_def)

text \<open>
  Claim C8, amended. With final coefficients, \<open>n\<close> identical frames \<open>(cte, speed)\<close>
  invoke the control callback \<open>n\<close> times and nothing else. The throttle is the same in
  every one of them: the value the frame and the off-track CTE determine. The steering
  of the \<open>i\<close>-th command is the clamped correction of the \<open>i\<close>-th successive call of the
  PID law, which depends on the law's running sum and previous error and so need not
  repeat. Only the PID law changes; distance, time, maximum CTE, track length and tuner
  stay as they were and have no influence: any other controller with final
  coefficients, the same PID law and the same off-track CTE issues the same commands.
\<close>

lemma steering_sequence_length [simp]: "length (steering_sequence c cte n) = n"
  by (induction n arbitrary: c) simp_all

lemma Updates_repeated:
  assumes "has_final_coefficients s"
  shows "Updates s (replicate n (cte, speed)) =
           Inr (s\<lparr>pid := pid_after (pid s) cte n\<rparr>, [],
                map (\<lambda>st. OnControl st (Throttle s cte speed))
                  (steering_sequence (pid s) cte n))"
  using assms
proof (induction n arbitrary: s)
  case 0
  then show ?case by simp
next
  case (Suc n)
  let ?s1 = "s\<lparr>pid := snd (GetError (pid s) cte)\<rparr>"
  have step: "Update s cte speed =
      Inr (?s1, [], [OnControl (clamp (fst (GetError (pid s) cte)) (- 1) 1)
                       (Throttle s cte speed)])"
    using Suc.prems by (simp add: Update_fixed Control_result NormalizeControl_is_clamp)
  have "has_final_coefficients ?s1" using Suc.prems by simp
  from Suc.IH [OF this] show ?case
    by (simp add: step Throttle_def)
qed

theorem Fixed_repeated_frames:
  assumes "has_final_coefficients s"
  shows
    "let throttle =
           (if dless (Finite 60) speed
            then clamp (dsub (Finite 1)
                          (ddiv (dmul (Finite 4) (dfabs cte)) (off_track_cte s)))
                   (- 1) 1
            else Finite 1);
         commands = map (\<lambda>st. OnControl st throttle) (steering_sequence (pid s) cte n)
     in Updates s (replicate n (cte, speed))
          = Inr (s\<lparr>pid := pid_after (pid s) cte n\<rparr>, [], commands)
        \<and> (\<forall>s'. has_final_coefficients s' \<and> pid s' = pid s
                  \<and> off_track_cte s' = off_track_cte s
              \<longrightarrow> Updates s' (replicate n (cte, speed))
                    = Inr (s'\<lparr>pid := pid_after (pid s) cte n\<rparr>, [], commands))"
proof -
  have th: "Throttle r cte speed =
      (if dless (Finite 60) speed
       then clamp (dsub (Finite 1) (ddiv (dmul (Finite 4) (dfabs cte)) (off_track_cte r)))
              (- 1) 1
       else Finite 1)" for r
    by (simp add: Throttle_def NormalizeControl_is_clamp)
  have "Updates s' (replicate n (cte, speed))
          = Inr (s'\<lparr>pid := pid_after (pid s) cte n\<rparr>, [],
                 map (\<lambda>st. OnControl st (Throttle s cte speed))
                   (steering_sequence (pid s) cte n))"
    if "has_final_coefficients s'" "pid s' = pid s" "off_track_cte s' = off_track_cte s"
    for s'
    using Updates_repeated [OF that(1), of n cte speed] that(2,3)
    by (simp add: Throttle_def)
  with Updates_repeated [OF assms, of n cte speed] show ?thesis
    unfolding Let_def th [symmetric] by blast
qed


theorem Fixed_repeated_frames_witness:
  "has_final_coefficients converged_controller
   \<and> Updates converged_controller (replicate 2 (Finite 0.5, Finite 61))
       = Inr (converged_controller
                \<lparr>pid := \<lparr>Kp = Finite 0.1, Ki = Finite 0.0001, Kd = Finite 4.0,
                          integral_cte = Finite 13, previous_cte = Finite 0.5\<rparr>\<rparr>,
              [],
              [OnControl (Finite 1) (Finite 0.6), OnControl (Finite (- 0.0513)) (Finite 0.6)])
   \<and> has_final_coefficients (PidController3 kKp kKi kKd\<lparr>
         pid := pid converged_controller, off_track_cte := Finite 5\<rparr>)
   \<and> Updates (PidController3 kKp kKi kKd\<lparr>
         pid := pid converged_controller, off_track_cte := Finite 5\<rparr>)
         (replicate 2 (Finite 0.5, Finite 61))
       = Inr (PidController3 kKp kKi kKd
                \<lparr>pid := pid converged_controller, off_track_cte := Finite 5\<rparr>
                \<lparr>pid := \<lparr>Kp = Finite 0.1, Ki = Finite 0.0001, Kd = Finite 4.0,
                          integral_cte = Finite 13, previous_cte = Finite 0.5\<rparr>\<rparr>,
              [],
              [OnControl (Finite 1) (Finite 0.6), OnControl (Finite (- 0.0513)) (Finite 0.6)])"
proof -
  let ?other = "PidController3 kKp kKi kKd\<lparr>
         pid := pid converged_controller, off_track_cte := Finite 5\<rparr>"
  have final: "has_final_coefficients converged_controller"
    by (simp add: converged_controller_def)
  have other: "has_final_coefficients ?other" "pid ?other = pid converged_controller"
    "off_track_cte ?other = off_track_cte converged_controller"
    by (simp_all add: PidController3_def converged_controller_def
          after_five_calm_frames_def examples)
  have fast: "dless (Finite 60) (Finite 61)" by simp
  have throttle:
    "clamp (dsub (Finite 1) (ddiv (dmul (Finite 4) (dfabs (Finite 0.5)))
        (off_track_cte converged_controller))) (- 1) 1 = Finite 0.6"
    by (simp add: converged_controller_def after_five_calm_frames_def examples dsub_def)
  have steering:
    "steering_sequence (pid converged_controller) (Finite 0.5) 2
       = [Finite 1, Finite (- 0.0513)]"
    by (simp add: numeral_2_eq_2 converged_controller_def GetError_def dsub_def
          zero_signed_def Let_def)
  have law:
    "pid_after (pid converged_controller) (Finite 0.5) 2
       = \<lparr>Kp = Finite 0.1, Ki = Finite 0.0001, Kd = Finite 4.0,
          integral_cte = Finite 13, previous_cte = Finite 0.5\<rparr>"
    by (simp add: numeral_2_eq_2 converged_controller_def GetError_def dsub_def
          zero_signed_def Let_def)
  from Fixed_repeated_frames [OF final, of "Finite 61" "Finite 0.5" 2] final other
  show ?thesis
    unfolding Let_def steering law throttle if_P [OF fast]
    by simp
qed

section \<open>The three-coefficient constructor\<close>

lemma division_by_zero_threshold:
  "NormalizeControl (dsub (Finite 1) (ddiv (dmul (Finite 4) (dfabs cte)) (Finite 0)))
     = (if cte = Finite 0 \<or> cte = NegZero \<or> cte = NaN then NaN else Finite (- 1))"
  by (cases cte) (simp_all add: NormalizeControl_def dsub_def inf_signed_def zero_signed_def)

text \<open>
  Claim C10. The constructor with three coefficients leaves the off-track CTE at zero,
  and it is still zero after any sequence of frames. Every further frame with a speed
  above 60 then computes its throttle as \<open>NormalizeControl (1 - 4 * |cte| / 0)\<close>: the
  division is by zero, without a guard. Its value is -1 for a non-zero CTE (one minus
  infinity, clamped) and NaN for a CTE of zero (of either sign) or NaN.
\<close>

theorem three_coefficient_zero_threshold:
  assumes "Updates (PidController3 kp ki kd) frames = Inr (s, out, cbs)"
    and "dless (Finite 60) speed"
  shows "off_track_cte (PidController3 kp ki kd) = Finite 0
         \<and> off_track_cte s = Finite 0
         \<and> (\<exists>s1 st. Update s cte speed =
               Inr (s1, [],
                    [OnControl st
                       (NormalizeControl
                          (dsub (Finite 1) (ddiv (dmul (Finite 4) (dfabs cte)) (Finite 0))))]))
         \<and> NormalizeControl (dsub (Finite 1) (ddiv (dmul (Finite 4) (dfabs cte)) (Finite 0)))
             = (if cte = Finite 0 \<or> cte = NegZero \<or> cte = NaN then NaN else Finite (- 1))"
proof -
  let ?s0 = "PidController3 kp ki kd"
  have final0: "has_final_coefficients ?s0" and zero0: "off_track_cte ?s0 = Finite 0"
    by (simp_all add: PidController3_def)
  from Updates_fixed [OF final0, of frames] assms(1) obtain c where s: "s = ?s0\<lparr>pid := c\<rparr>"
    by auto
  have final: "has_final_coefficients s" and zero: "off_track_cte s = Finite 0"
    by (simp_all add: s PidController3_def)
  have "Update s cte speed =
          Inr (s\<lparr>pid := snd (GetError (pid s) cte)\<rparr>, [],
               [OnControl (NormalizeControl (fst (GetError (pid s) cte)))
                  (NormalizeControl
                     (dsub (Finite 1) (ddiv (dmul (Finite 4) (dfabs cte)) (Finite 0))))])"
    using assms(2) by (simp add: Update_fixed [OF final] Control_result Throttle_def zero)
  with zero0 zero show ?thesis
    by (simp only: division_by_zero_threshold) blast
qed

theorem three_coefficient_zero_threshold_witness:
  "Updates (PidController3 kKp kKi kKd) [(Finite 0.1, Finite 30), (Finite 0.1, Finite 30)]
     = Inr ((PidController3 kKp kKi kKd)
              \<lparr>pid := (Pid_new kKp kKi kKd)
                         \<lparr>integral_cte := Finite 0.2, previous_cte := Finite 0.1\<rparr>\<rparr>,
            [],
            [OnControl (Finite (- 0.412001)) (Finite 1),
             OnControl (Finite (- 0.012002)) (Finite 1)])
   \<and> dless (Finite 60) (Finite 61)
   \<and> (\<exists>s1 st.
         Update ((PidController3 kKp kKi kKd)
                   \<lparr>pid := (Pid_new kKp kKi kKd)
                              \<lparr>integral_cte := Finite 0.2, previous_cte := Finite 0.1\<rparr>\<rparr>)
           (Finite 0) (Finite 61)
         = Inr (s1, [], [OnControl st NaN]))
   \<and> (\<exists>s1 st.
         Update ((PidController3 kKp kKi kKd)
                   \<lparr>pid := (Pid_new kKp kKi kKd)
                              \<lparr>integral_cte := Finite 0.2, previous_cte := Finite 0.1\<rparr>\<rparr>)
           (Finite 0.1) (Finite 61)
         = Inr (s1, [], [OnControl st (Finite (- 1))]))"
proof -
  have run: "Updates (PidController3 kKp kKi kKd)
       [(Finite 0.1, Finite 30), (Finite 0.1, Finite 30)]
     = Inr ((PidController3 kKp kKi kKd)
              \<lparr>pid := (Pid_new kKp kKi kKd)
                         \<lparr>integral_cte := Finite 0.2, previous_cte := Finite 0.1\<rparr>\<rparr>,
            [],
            [OnControl (Finite (- 0.412001)) (Finite 1),
             OnControl (Finite (- 0.012002)) (Finite 1)])"
    by (simp add: evaluation kKp_def kKi_def kKd_def)
  have fast: "dless (Finite 60) (Finite 61)" by simp
  have a: "Finite 0 = Finite 0 \<or> Finite 0 = NegZero \<or> Finite 0 = NaN" by simp
  have b: "\<not> (Finite 0.1 = Finite 0 \<or> Finite 0.1 = NegZero \<or> Finite 0.1 = NaN)" by simp
  from three_coefficient_zero_threshold [OF run fast, of "Finite 0"]
  have zero: "\<exists>s1 st.
         Update ((PidController3 kKp kKi kKd)
                   \<lparr>pid := (Pid_new kKp kKi kKd)
                              \<lparr>integral_cte := Finite 0.2, previous_cte := Finite 0.1\<rparr>\<rparr>)
           (Finite 0) (Finite 61)
         = Inr (s1, [], [OnControl st NaN])"
    by (simp only: a if_True) metis
  from three_coefficient_zero_threshold [OF run fast, of "Finite 0.1"]
  have nonzero: "\<exists>s1 st.
         Update ((PidController3 kKp kKi kKd)
                   \<lparr>pid := (Pid_new kKp kKi kKd)
                              \<lparr>integral_cte := Finite 0.2, previous_cte := Finite 0.1\<rparr>\<rparr>)
           (Finite 0.1) (Finite 61)
         = Inr (s1, [], [OnControl st (Finite (- 1))])"
    by (simp only: b if_False) metis
  from run fast zero nonzero show ?thesis by blast
qed

section \<open>The maximum CTE of an episode\<close>

text \<open>
  Claim C5 reads the recorded maximum as the largest magnitude \<open>|cte|\<close> seen once the
  distance exceeds 0.025 of the track length, so that a large negative CTE raises it.
  \<^verbatim>\<open>Update\<close> compares the signed value (\<open>Accumulate_max_cte\<close> above). Here the test
  controller is driven for six frames with a CTE of -4 at speed 100: the distance passes
  0.25 meters with the first frame, yet the maximum stays 0, and when the sixth frame
  completes the track the controller takes 0 to be below 2.5 and keeps its coefficients
  for good, although the vehicle was 4 meters off the centre line throughout and the
  off-track test on the same frames does use the magnitude.
\<close>

theorem negative_cte_is_not_recorded:
  "Updates test_controller
     [(Finite (- 4), Finite 100), (Finite (- 4), Finite 100), (Finite (- 4), Finite 100),
      (Finite (- 4), Finite 100), (Finite (- 4), Finite 100), (Finite (- 4), Finite 100)]
   = Inr (test_controller
            \<lparr>has_final_coefficients := True,
             distance := Finite 10.72896, time := Finite 0.24, max_cte := Finite 0,
             pid := (Pid_new (Finite 0.1) (Finite 0.0001) (Finite 4.0))
                      \<lparr>integral_cte := Finite (- 24), previous_cte := Finite (- 4)\<rparr>\<rparr>,
          [MaxCteIs (Finite 0) (Finite 10.72896) (Finite 0.24) (Finite 100),
           UsingFinalCoefficients],
          [OnControl (Finite 1) (Finite (- 1)), OnControl (Finite 0.4008) (Finite (- 1)),
           OnControl (Finite 0.4012) (Finite (- 1)), OnControl (Finite 0.4016) (Finite (- 1)),
           OnControl (Finite 0.4020) (Finite (- 1)), OnControl (Finite 0.4024) (Finite (- 1))])"
  by (simp add: evaluation)

section \<open>The tuner's backtracking\<close>

text \<open>
  Claim C7. After the first submission, which probes parameter 0 upward, a worse score
  leaves the value of parameter 0 exactly one delta below its original value, with the
  delta unchanged and parameter 0 still the current one; a second worse score restores
  the original value, multiplies the delta by 0.9 and makes parameter 1 the current
  one. The value and delta of parameter 0 are finite.
\<close>

theorem tuner_backtrack:
  assumes "dless e1 e2" and "dless e1 e3"
  shows
    "let tw0 = Twiddler_new [\<lparr>p = Finite x, dp = Finite dx\<rparr>, b, c];
         tw1 = snd (UpdateError tw0 e1);
         r2 = UpdateError tw1 e2;
         r3 = UpdateError (snd r2) e3
     in p (fst r2 ! 0) = Finite (x - dx) \<and> dp (fst r2 ! 0) = Finite dx
        \<and> current_parameter (snd r2) = 0
        \<and> p (fst r3 ! 0) = Finite x \<and> dp (fst r3 ! 0) = Finite (0.9 * dx)
        \<and> current_parameter (snd r3) = 1"
proof -
  have ni2: "\<not> dless e2 e1" using assms(1) by (cases e1; cases e2) auto
  have ni3: "\<not> dless e3 e1" using assms(2) by (cases e1; cases e3) auto
  show ?thesis
    using ni2 ni3
    by (simp add: UpdateError_def Twiddler_new_def probe_up_def next_parameter_def
          dsub_def zero_signed_def Let_def algebra_simps)
qed


theorem tuner_backtrack_witness:
  "dless (Finite 1) (Finite 2) \<and> dless (Finite 1) (Finite 3)
   \<and> (let tw1 = snd (UpdateError test_tuner (Finite 1));
           r2 = UpdateError tw1 (Finite 2);
           r3 = UpdateError (snd r2) (Finite 3)
       in p (fst r2 ! 0) = Finite 0.09 \<and> dp (fst r2 ! 0) = Finite 0.01
          \<and> current_parameter (snd r2) = 0
          \<and> p (fst r3 ! 0) = Finite 0.1 \<and> dp (fst r3 ! 0) = Finite 0.009
          \<and> current_parameter (snd r3) = 1)"
proof -
  have worse: "dless (Finite 1) (Finite 2)" "dless (Finite 1) (Finite 3)"
    by simp_all
  from tuner_backtrack [OF worse, of "0.1" "0.01"
      "\<lparr>p = Finite 0.0001, dp = Finite 0.00001\<rparr>" "\<lparr>p = Finite 4.0, dp = Finite 0.1\<rparr>"]
  show ?thesis
    using worse by (simp add: test_tuner_def Let_def)
qed

section \<open>Validation of the command line\<close>

lemma stod_then_Some [simp]: "stod_then (Some v) k = k v"
  by (simp add: stod_then_def)

lemma stod_then_None [simp]: "stod_then None k = Inl Thrown"
  by (simp add: stod_then_def)

lemma ProcessBaseParameters_small:
  assumes "4 < length argv" and "stod (argv ! 4) = Some otc" and "dless otc (Finite 0.1)"
  shows "ProcessBaseParameters stod argv = Inl Thrown
         \<or> (\<exists>m. ProcessBaseParameters stod argv = Inl (Exit m))"
  using assms
  by (cases "stod (argv ! 1)"; cases "stod (argv ! 2)"; cases "stod (argv ! 3)")
     (simp_all add: ProcessBaseParameters_def kMinOffTrackCte_def)

lemma ProcessBaseParameters_Inr:
  assumes "ProcessBaseParameters stod argv = Inr (kp, ki, kd, otc)"
  shows "stod (argv ! 1) = Some kp \<and> stod (argv ! 2) = Some ki \<and> stod (argv ! 3) = Some kd
         \<and> stod (argv ! 4) = Some otc \<and> \<not> dless otc (Finite 0.1)"
  using assms
  by (cases "stod (argv ! 1)"; cases "stod (argv ! 2)"; cases "stod (argv ! 3)";
      cases "stod (argv ! 4)")
     (auto simp add: ProcessBaseParameters_def kMinOffTrackCte_def split: if_splits)

lemma catch_Exit:
  "(case r of Inl Thrown \<Rightarrow> Inl (Exit InvalidDataFormat) | r \<Rightarrow> r) = Inl f
     \<Longrightarrow> r \<noteq> Inl Aborted \<Longrightarrow> \<exists>m. f = Exit m"
  by (auto split: sum.splits failure.splits)


lemma ProcessBaseParameters_not_Aborted:
  assumes "4 < length argv"
  shows "ProcessBaseParameters stod argv \<noteq> Inl Aborted"
  using assms
  by (cases "stod (argv ! 1)"; cases "stod (argv ! 2)"; cases "stod (argv ! 3)";
      cases "stod (argv ! 4)")
     (simp_all add: ProcessBaseParameters_def)

lemma Create1:
  assumes "length argv = 1"
  shows "CreatePidController stod argv = Inr (New4 kKp kKi kKd kOffTrackCte)"
  using assms by (simp add: CreatePidController_def)

lemma Create5:
  assumes "length argv = 5"
  shows "CreatePidController stod argv =
     (case ProcessBaseParameters stod argv of
        Inl Thrown \<Rightarrow> Inl (Exit InvalidDataFormat)
      | Inl f \<Rightarrow> Inl f
      | Inr (kp, ki, kd, otc) \<Rightarrow> Inr (New4 kp ki kd otc))"
  using assms
  by (simp add: CreatePidController_def split: sum.splits failure.splits)

lemma Create9:
  assumes "length argv = 9"
  shows "CreatePidController stod argv =
     (case ProcessBaseParameters stod argv of
        Inl Thrown \<Rightarrow> Inl (Exit InvalidDataFormat)
      | Inl f \<Rightarrow> Inl f
      | Inr (kp, ki, kd, otc) \<Rightarrow>
          (case stod (argv ! 5) of None \<Rightarrow> Inl (Exit InvalidDataFormat) | Some dkp \<Rightarrow>
           case stod (argv ! 6) of None \<Rightarrow> Inl (Exit InvalidDataFormat) | Some dki \<Rightarrow>
           case stod (argv ! 7) of None \<Rightarrow> Inl (Exit InvalidDataFormat) | Some dkd \<Rightarrow>
           case stod (argv ! 8) of None \<Rightarrow> Inl (Exit InvalidDataFormat) | Some tlen \<Rightarrow>
             if dless tlen (Finite 0) then Inl (Exit TrackLengthNegative)
             else if dless tlen (Finite 50) then Inl (Exit TrackLengthTooSmall)
             else Inr (New8 kp ki kd otc dkp dki dkd tlen)))"
  using assms
  by (simp add: CreatePidController_def kMinTrackLength_def
      split: sum.splits failure.splits option.splits)

lemma CreatePidController_small_otc:
  assumes "length argv = 5 \<or> length argv = 9"
    and "stod (argv ! 4) = Some otc" and "dless otc (Finite 0.1)"
  shows "\<exists>m. CreatePidController stod argv = Inl (Exit m)"
proof -
  have "4 < length argv" using assms(1) by auto
  from ProcessBaseParameters_small [where stod = stod and argv = argv, OF this assms(2,3)]
  consider "ProcessBaseParameters stod argv = Inl Thrown"
    | m where "ProcessBaseParameters stod argv = Inl (Exit m)"
    by blast
  then show ?thesis
    using assms(1) by cases (auto simp add: Create5 Create9)
qed

lemma CreatePidController_small_tlen:
  assumes "length argv = 9"
    and "stod (argv ! 8) = Some tlen" and "dless tlen (Finite 50)"
  shows "\<exists>m. CreatePidController stod argv = Inl (Exit m)"
proof (cases "ProcessBaseParameters stod argv")
  case (Inl f)
  moreover have "f \<noteq> Aborted"
    using ProcessBaseParameters_not_Aborted [of argv stod] assms(1) Inl by auto
  ultimately show ?thesis
    by (cases f) (simp_all add: Create9 [OF assms(1)])
next
  case (Inr r)
  then show ?thesis
    using assms(2,3)
    by (cases r) (simp add: Create9 [OF assms(1)] split: option.splits)
qed

lemma CreatePidController_Inr:
  assumes "CreatePidController stod argv = Inr c"
  shows "(length argv = 1 \<and> c = New4 kKp kKi kKd kOffTrackCte)
     \<or> (length argv = 5
         \<and> (\<exists>kp ki kd otc.
               stod (argv ! 1) = Some kp \<and> stod (argv ! 2) = Some ki
               \<and> stod (argv ! 3) = Some kd \<and> stod (argv ! 4) = Some otc
               \<and> \<not> dless otc (Finite 0.1) \<and> c = New4 kp ki kd otc))
     \<or> (length argv = 9
         \<and> (\<exists>kp ki kd otc dkp dki dkd tlen.
               stod (argv ! 1) = Some kp \<and> stod (argv ! 2) = Some ki
               \<and> stod (argv ! 3) = Some kd \<and> stod (argv ! 4) = Some otc
               \<and> stod (argv ! 5) = Some dkp \<and> stod (argv ! 6) = Some dki
               \<and> stod (argv ! 7) = Some dkd \<and> stod (argv ! 8) = Some tlen
               \<and> \<not> dless otc (Finite 0.1) \<and> \<not> dless tlen (Finite 50)
               \<and> c = New8 kp ki kd otc dkp dki dkd tlen))"
proof -
  have len: "length argv = 1 \<or> length argv = 5 \<or> length argv = 9"
    using assms by (auto simp add: CreatePidController_def Let_def split: if_splits)
  then consider "length argv = 1" | "length argv = 5" | "length argv = 9" by blast
  then show ?thesis
  proof cases
    case 1
    with assms show ?thesis by (simp add: Create1)
  next
    case 2
    with assms obtain kp ki kd otc where
      "ProcessBaseParameters stod argv = Inr (kp, ki, kd, otc)" "c = New4 kp ki kd otc"
      by (auto simp add: Create5 split: sum.splits failure.splits)
    with ProcessBaseParameters_Inr [of stod argv kp ki kd otc] 2 show ?thesis by simp
  next
    case 3
    with assms obtain kp ki kd otc dkp dki dkd tlen where
      base: "ProcessBaseParameters stod argv = Inr (kp, ki, kd, otc)"
      and rest: "stod (argv ! 5) = Some dkp" "stod (argv ! 6) = Some dki"
        "stod (argv ! 7) = Some dkd" "stod (argv ! 8) = Some tlen"
        "\<not> dless tlen (Finite 50)" "c = New8 kp ki kd otc dkp dki dkd tlen"
      by (auto simp add: Create9 split: sum.splits failure.splits option.splits if_splits)
    with ProcessBaseParameters_Inr [OF base] 3 show ?thesis by simp
  qed
qed

text \<open>
  Claim C9. \<^verbatim>\<open>CreatePidController\<close> runs before any frame. Whenever an off-track CTE is
  supplied (four or eight arguments) and is strictly less than 0.1, or a track length is
  supplied (eight arguments) and is strictly less than 50, the process exits and no
  controller is constructed. Whenever a controller is constructed, the constructor
  receives either the defaults (no arguments) or exactly the numbers \<^verbatim>\<open>std::stod\<close>
  returned, in the order given, none of them replaced, and then the off-track CTE is
  not below 0.1 and the track length not below 50.
\<close>

theorem CreatePidController_validation:
  "((length argv = 5 \<or> length argv = 9) \<and> stod (argv ! 4) = Some otc
      \<and> dless otc (Finite 0.1)
     \<longrightarrow> (\<exists>m. CreatePidController stod argv = Inl (Exit m)))
   \<and> (length argv = 9 \<and> stod (argv ! 8) = Some tlen \<and> dless tlen (Finite 50)
     \<longrightarrow> (\<exists>m. CreatePidController stod argv = Inl (Exit m)))
   \<and> (CreatePidController stod argv = Inr c \<longrightarrow>
       (length argv = 1 \<and> c = New4 kKp kKi kKd kOffTrackCte)
     \<or> (length argv = 5
         \<and> (\<exists>kp ki kd v.
               stod (argv ! 1) = Some kp \<and> stod (argv ! 2) = Some ki
               \<and> stod (argv ! 3) = Some kd \<and> stod (argv ! 4) = Some v
               \<and> \<not> dless v (Finite 0.1) \<and> c = New4 kp ki kd v))
     \<or> (length argv = 9
         \<and> (\<exists>kp ki kd v dkp dki dkd w.
               stod (argv ! 1) = Some kp \<and> stod (argv ! 2) = Some ki
               \<and> stod (argv ! 3) = Some kd \<and> stod (argv ! 4) = Some v
               \<and> stod (argv ! 5) = Some dkp \<and> stod (argv ! 6) = Some dki
               \<and> stod (argv ! 7) = Some dkd \<and> stod (argv ! 8) = Some w
               \<and> \<not> dless v (Finite 0.1) \<and> \<not> dless w (Finite 50)
               \<and> c = New8 kp ki kd v dkp dki dkd w)))"
  using CreatePidController_small_otc [of argv stod otc]
    CreatePidController_small_tlen [of argv stod tlen]
    CreatePidController_Inr [of stod argv c]
  by blast


theorem CreatePidController_validation_witness:
  "(length [''pid'', ''0.12'', ''0.00001'', ''4.0'', ''0.05''] = 5
    \<and> example_stod ([''pid'', ''0.12'', ''0.00001'', ''4.0'', ''0.05''] ! 4) = Some (Finite 0.05)
    \<and> dless (Finite 0.05) (Finite 0.1)
    \<and> (\<exists>m. CreatePidController example_stod [''pid'', ''0.12'', ''0.00001'', ''4.0'', ''0.05'']
              = Inl (Exit m)))
   \<and> (length (tuning_argv[8 := ''40'']) = 9
    \<and> example_stod (tuning_argv[8 := ''40''] ! 8) = Some (Finite 40)
    \<and> dless (Finite 40) (Finite 50)
    \<and> (\<exists>m. CreatePidController example_stod (tuning_argv[8 := ''40'']) = Inl (Exit m)))
   \<and> (CreatePidController example_stod tuning_argv
         = Inr (New8 (Finite 0.12) (Finite 0.00001) (Finite 4.0) (Finite 5.0)
                  (Finite 0.01) (Finite 0.000001) (Finite 0.1) (Finite 1000))
    \<and> (\<exists>kp ki kd v dkp dki dkd w.
          example_stod (tuning_argv ! 1) = Some kp \<and> example_stod (tuning_argv ! 2) = Some ki
          \<and> example_stod (tuning_argv ! 3) = Some kd \<and> example_stod (tuning_argv ! 4) = Some v
          \<and> example_stod (tuning_argv ! 5) = Some dkp \<and> example_stod (tuning_argv ! 6) = Some dki
          \<and> example_stod (tuning_argv ! 7) = Some dkd \<and> example_stod (tuning_argv ! 8) = Some w
          \<and> \<not> dless v (Finite 0.1) \<and> \<not> dless w (Finite 50)
          \<and> New8 (Finite 0.12) (Finite 0.00001) (Finite 4.0) (Finite 5.0)
               (Finite 0.01) (Finite 0.000001) (Finite 0.1) (Finite 1000)
             = New8 kp ki kd v dkp dki dkd w))"
proof -
  let ?a5 = "[''pid'', ''0.12'', ''0.00001'', ''4.0'', ''0.05'']"
  let ?a9 = "tuning_argv[8 := ''40'']"
  let ?c = "New8 (Finite 0.12) (Finite 0.00001) (Finite 4.0) (Finite 5.0)
                  (Finite 0.01) (Finite 0.000001) (Finite 0.1) (Finite 1000)"
  have a: "length ?a5 = 5" "example_stod (?a5 ! 4) = Some (Finite 0.05)"
    "dless (Finite 0.05) (Finite 0.1)"
    by (simp_all add: example_stod_def)
  have b: "length ?a9 = 9" "example_stod (?a9 ! 8) = Some (Finite 40)"
    "dless (Finite 40) (Finite 50)"
    by (simp_all add: example_stod_def tuning_argv_def)
  have c: "CreatePidController example_stod tuning_argv = Inr ?c"
    by (simp add: CreatePidController_def ProcessBaseParameters_def example_stod_def
          tuning_argv_def kMinOffTrackCte_def kMinTrackLength_def)
  have len: "length tuning_argv \<noteq> 1" "length tuning_argv \<noteq> 5"
    by (simp_all add: tuning_argv_def)
  from CreatePidController_validation
         [where argv = ?a5 and stod = example_stod and otc = "Finite 0.05"] a
  have first: "\<exists>m. CreatePidController example_stod ?a5 = Inl (Exit m)"
    by blast
  from CreatePidController_validation
         [where argv = ?a9 and stod = example_stod and tlen = "Finite 40"] b
  have second: "\<exists>m. CreatePidController example_stod ?a9 = Inl (Exit m)"
    by blast
  from CreatePidController_validation
         [where argv = tuning_argv and stod = example_stod and c = ?c] c len
  have third: "\<exists>kp ki kd v dkp dki dkd w.
          example_stod (tuning_argv ! 1) = Some kp \<and> example_stod (tuning_argv ! 2) = Some ki
          \<and> example_stod (tuning_argv ! 3) = Some kd \<and> example_stod (tuning_argv ! 4) = Some v
          \<and> example_stod (tuning_argv ! 5) = Some dkp \<and> example_stod (tuning_argv ! 6) = Some dki
          \<and> example_stod (tuning_argv ! 7) = Some dkd \<and> example_stod (tuning_argv ! 8) = Some w
          \<and> \<not> dless v (Finite 0.1) \<and> \<not> dless w (Finite 50)
          \<and> ?c = New8 kp ki kd v dkp dki dkd w"
    by blast
  from a b c first second third show ?thesis by blast
qed

end
